theory Spec2Isabelle
  imports Complex_Main
begin

section \<open>Exceptions\<close>

text \<open>
  The exceptions that travel through the data path. The three Google API error classes are
  the ones named in the retry decorator of \<^verbatim>\<open>PubSubService._publish_message\<close>;
  \<^verbatim>\<open>PyException\<close> is a plain \<^verbatim>\<open>Exception(msg)\<close>, as raised by the circuit
  breaker itself; \<^verbatim>\<open>ValidationError\<close> is pydantic's, with the messages of the fields
  that failed, and is a \<^verbatim>\<open>ValueError\<close> for an \<^verbatim>\<open>except\<close> clause.
\<close>

datatype exn =
    ServiceUnavailable
  | DeadlineExceeded
  | InternalServerError
  | RetryError exn
  | PyException string
  | ValueError string
  | TypeError string
  | KeyError string
  | IndexError string
  | OverflowError string
  | ValidationError "string list"

text \<open>What \<^verbatim>\<open>except ValueError\<close> and \<^verbatim>\<open>except (ValueError, TypeError)\<close> catch.\<close>

definition is_ValueError :: "exn \<Rightarrow> bool" where
  "is_ValueError e = (case e of ValueError m \<Rightarrow> True | ValidationError ms \<Rightarrow> True | _ \<Rightarrow> False)"

definition is_ValueError_or_TypeError :: "exn \<Rightarrow> bool" where
  "is_ValueError_or_TypeError e = (case e of TypeError m \<Rightarrow> True | _ \<Rightarrow> is_ValueError e)"

section \<open>Circuit breaker (app/services/pubsub.py)\<close>

datatype CircuitBreakerState = CLOSED | OPEN | HALF_OPEN

text \<open>
  The instance attributes of \<^verbatim>\<open>CircuitBreaker\<close>. Clock readings (\<^verbatim>\<open>time.time()\<close>)
  are seconds as real numbers.
\<close>

record CircuitBreaker =
  failure_threshold :: int
  recovery_timeout :: int
  failure_count :: int
  last_failure_time :: "real option"
  state :: CircuitBreakerState

definition CircuitBreaker_init :: "int \<Rightarrow> int \<Rightarrow> CircuitBreaker" where
  "CircuitBreaker_init threshold timeout =
     \<lparr> failure_threshold = threshold, recovery_timeout = timeout,
       failure_count = 0, last_failure_time = None, state = CLOSED \<rparr>"

definition should_attempt_reset :: "CircuitBreaker \<Rightarrow> real \<Rightarrow> bool" where
  "should_attempt_reset cb now =
     (case last_failure_time cb of
        None \<Rightarrow> False
      | Some t \<Rightarrow> now - t \<ge> real_of_int (recovery_timeout cb))"

definition on_success :: "CircuitBreaker \<Rightarrow> CircuitBreaker" where
  "on_success cb = cb\<lparr> failure_count := 0, state := CLOSED \<rparr>"

definition on_failure :: "CircuitBreaker \<Rightarrow> real \<Rightarrow> CircuitBreaker" where
  "on_failure cb now =
     (let cb1 = cb\<lparr> failure_count := failure_count cb + 1, last_failure_time := Some now \<rparr>
      in if failure_count cb1 \<ge> failure_threshold cb1 then cb1\<lparr> state := OPEN \<rparr> else cb1)"

text \<open>
  \<^verbatim>\<open>CircuitBreaker.call\<close>. The wrapped operation is a function on the outside world
  \<open>'w\<close> that returns its outcome (\<open>Inl\<close> an exception, \<open>Inr\<close> a result) and the world
  it leaves behind; \<open>clk\<close> reads the clock of a world. The breaker reads the clock once
  before the operation (in \<^verbatim>\<open>_should_attempt_reset\<close>, only when OPEN) and once after a
  failed operation (in \<^verbatim>\<open>_on_failure\<close>). A rejected call returns the world it was
  given: the operation is never applied.
\<close>

definition circuit_open_error :: exn where
  "circuit_open_error = PyException ''Circuit breaker is OPEN''"

definition call ::
  "('w \<Rightarrow> real) \<Rightarrow> CircuitBreaker \<Rightarrow> ('w \<Rightarrow> (exn + 'a) \<times> 'w) \<Rightarrow> 'w
     \<Rightarrow> (exn + 'a) \<times> CircuitBreaker \<times> 'w" where
  "call clk cb func w =
     (if state cb = OPEN \<and> \<not> should_attempt_reset cb (clk w)
      then (Inl circuit_open_error, cb, w)
      else
        let cb1 = (if state cb = OPEN then cb\<lparr> state := HALF_OPEN \<rparr> else cb)
        in case func w of
             (Inr result, w') \<Rightarrow> (Inr result, on_success cb1, w')
           | (Inl e, w') \<Rightarrow> (Inl e, on_failure cb1 (clk w'), w'))"

text \<open>
  A sequence of calls on one breaker. Each call comes with the operation it wraps and the
  world in which it is made (anything may happen to the world between two calls); the
  result lists, call by call, the outcome, the breaker after the call and the world after
  the call.
\<close>

fun calls ::
  "('w \<Rightarrow> real) \<Rightarrow> CircuitBreaker \<Rightarrow> (('w \<Rightarrow> (exn + 'a) \<times> 'w) \<times> 'w) list
     \<Rightarrow> ((exn + 'a) \<times> CircuitBreaker \<times> 'w) list" where
  "calls clk cb [] = []"
| "calls clk cb ((func, w) # rest) =
     (let r = call clk cb func w in r # calls clk (fst (snd r)) rest)"

definition breaker_after ::
  "('w \<Rightarrow> real) \<Rightarrow> CircuitBreaker \<Rightarrow> (('w \<Rightarrow> (exn + 'a) \<times> 'w) \<times> 'w) list
     \<Rightarrow> CircuitBreaker" where
  "breaker_after clk cb cs = last (cb # map (\<lambda>r. fst (snd r)) (calls clk cb cs))"

text \<open>A test world: the clock and the number of times the operation has run.\<close>

record test_world =
  tw_now :: real
  tw_invocations :: nat

definition failing_op :: "real \<Rightarrow> test_world \<Rightarrow> (exn + string) \<times> test_world" where
  "failing_op dt w =
     (Inl ServiceUnavailable, \<lparr> tw_now = tw_now w + dt, tw_invocations = Suc (tw_invocations w) \<rparr>)"

definition succeeding_op :: "real \<Rightarrow> test_world \<Rightarrow> (exn + string) \<times> test_world" where
  "succeeding_op dt w =
     (Inr ''id-1'', \<lparr> tw_now = tw_now w + dt, tw_invocations = Suc (tw_invocations w) \<rparr>)"

text \<open>
  The state changes of a run: the pairs of different states that follow one another in a
  list of breaker states.
\<close>

fun transitions ::
  "CircuitBreakerState list \<Rightarrow> (CircuitBreakerState \<times> CircuitBreakerState) list" where
  "transitions (a # b # rest) =
     (if a = b then transitions (b # rest) else (a, b) # transitions (b # rest))"
| "transitions _ = []"

section \<open>Python values and strings\<close>

text \<open>
  A \<^verbatim>\<open>datetime\<close> is naive (no time zone: its wall-clock time, in microseconds, the
  resolution of Python's \<^verbatim>\<open>datetime\<close>) or aware (the instant it denotes, in
  microseconds, and its offset from UTC). Two naive datetimes compare by their wall-clock
  times and two aware ones by their instants; ordering a naive against an aware one raises
  \<^verbatim>\<open>TypeError\<close>.
\<close>

datatype datetime = Naive int | Aware int int

definition datetime_le :: "datetime \<Rightarrow> datetime \<Rightarrow> exn + bool" where
  "datetime_le a b =
     (case (a, b) of
        (Naive x, Naive y) \<Rightarrow> Inr (x \<le> y)
      | (Aware x ox, Aware y oy) \<Rightarrow> Inr (x \<le> y)
      | _ \<Rightarrow> Inl (TypeError ''cannot compare offset-naive and offset-aware datetimes''))"

text \<open>
  The values that occur in the dictionaries of the data path (\<^verbatim>\<open>Dict[str, Any]\<close>):
  \<^verbatim>\<open>None\<close>, \<^verbatim>\<open>int\<close>, \<^verbatim>\<open>float\<close>, \<^verbatim>\<open>Decimal\<close>, \<^verbatim>\<open>str\<close> and
  \<^verbatim>\<open>datetime\<close>. A float carries the (finite) number it denotes, which is one that
  binary64 represents; a decimal carries the number it denotes, which need not be one.
  Infinities and NaN are not among the values.
\<close>

datatype pyval =
    PyNone
  | PyInt int
  | PyFloat real
  | PyDecimal real
  | PyStr string
  | PyDatetime datetime

text \<open>
  The library functions whose results depend on text formats or on the floating point
  format: \<^verbatim>\<open>int(s)\<close> and \<^verbatim>\<open>float(s)\<close> on a string (\<open>None\<close> where Python
  raises \<^verbatim>\<open>ValueError\<close>); \<^verbatim>\<open>float(d)\<close> on a decimal, which rounds the decimal's
  number to binary64; \<^verbatim>\<open>float(i)\<close> on an integer, which rounds likewise (\<open>None\<close>
  where Python raises \<^verbatim>\<open>OverflowError\<close>); \<^verbatim>\<open>str(x)\<close> on a float, a decimal or
  a datetime; and the conversion that pydantic applies to a value given for a
  \<^verbatim>\<open>datetime\<close> field that is not a datetime already (\<open>None\<close> where it reports a
  validation error).
\<close>

record builtins =
  int_of_str :: "string \<Rightarrow> int option"
  float_of_str :: "string \<Rightarrow> real option"
  float_of_decimal :: "real \<Rightarrow> real"
  float_of_int :: "int \<Rightarrow> real option"
  str_of :: "pyval \<Rightarrow> string"
  datetime_of :: "pyval \<Rightarrow> datetime option"

text \<open>Truncation towards zero, as \<^verbatim>\<open>int(x)\<close> does on a float or a decimal.\<close>

definition trunc :: "real \<Rightarrow> int" where
  "trunc r = (if 0 \<le> r then \<lfloor>r\<rfloor> else \<lceil>r\<rceil>)"

definition py_int :: "builtins \<Rightarrow> pyval \<Rightarrow> exn + int" where
  "py_int bi v =
     (case v of
        PyNone \<Rightarrow> Inl (TypeError ''int() argument must be a string or a number'')
      | PyInt i \<Rightarrow> Inr i
      | PyFloat r \<Rightarrow> Inr (trunc r)
      | PyDecimal d \<Rightarrow> Inr (trunc d)
      | PyStr s \<Rightarrow>
          (case int_of_str bi s of
             None \<Rightarrow> Inl (ValueError ''invalid literal for int()'')
           | Some i \<Rightarrow> Inr i)
      | PyDatetime t \<Rightarrow> Inl (TypeError ''int() argument must be a string or a number''))"

definition py_float :: "builtins \<Rightarrow> pyval \<Rightarrow> exn + real" where
  "py_float bi v =
     (case v of
        PyNone \<Rightarrow> Inl (TypeError ''float() argument must be a string or a number'')
      | PyInt i \<Rightarrow>
          (case float_of_int bi i of
             None \<Rightarrow> Inl (OverflowError ''int too large to convert to float'')
           | Some r \<Rightarrow> Inr r)
      | PyFloat r \<Rightarrow> Inr r
      | PyDecimal d \<Rightarrow> Inr (float_of_decimal bi d)
      | PyStr s \<Rightarrow>
          (case float_of_str bi s of
             None \<Rightarrow> Inl (ValueError ''could not convert string to float'')
           | Some r \<Rightarrow> Inr r)
      | PyDatetime t \<Rightarrow> Inl (TypeError ''float() argument must be a string or a number''))"

text \<open>Truth value of a Python object (\<^verbatim>\<open>if x:\<close>, \<^verbatim>\<open>x or y\<close>, \<^verbatim>\<open>not x\<close>).\<close>

definition truthy :: "pyval \<Rightarrow> bool" where
  "truthy v =
     (case v of
        PyNone \<Rightarrow> False
      | PyInt i \<Rightarrow> i \<noteq> 0
      | PyFloat r \<Rightarrow> r \<noteq> 0
      | PyDecimal d \<Rightarrow> d \<noteq> 0
      | PyStr s \<Rightarrow> s \<noteq> []
      | PyDatetime t \<Rightarrow> True)"

text \<open>\<^verbatim>\<open>x or y\<close>.\<close>

definition py_or :: "pyval \<Rightarrow> pyval \<Rightarrow> pyval" where
  "py_or x y = (if truthy x then x else y)"

text \<open>\<^verbatim>\<open>d.get(key, default)\<close> on a dictionary kept as an association list.\<close>

definition dict_get :: "(string \<times> 'v) list \<Rightarrow> string \<Rightarrow> 'v \<Rightarrow> 'v" where
  "dict_get d key dflt = (case map_of d key of None \<Rightarrow> dflt | Some v \<Rightarrow> v)"

text \<open>\<^verbatim>\<open>str(n)\<close> for an integer: its decimal digits.\<close>

definition digit_char :: "nat \<Rightarrow> char" where
  "digit_char d = ''0123456789'' ! d"

function str_nat :: "nat \<Rightarrow> string" where
  "str_nat n = (if n < 10 then [digit_char n] else str_nat (n div 10) @ [digit_char (n mod 10)])"
  by pat_completeness auto
termination
  by (relation "measure id") auto

declare str_nat.simps [simp del]

definition str_int :: "int \<Rightarrow> string" where
  "str_int i = (if i < 0 then CHR ''-'' # str_nat (nat (- i)) else str_nat (nat i))"

text \<open>\<^verbatim>\<open>str(x)\<close> for any value, and \<^verbatim>\<open>sub in s\<close> for two strings.\<close>

definition py_str :: "builtins \<Rightarrow> pyval \<Rightarrow> string" where
  "py_str bi v = (case v of PyNone \<Rightarrow> ''None'' | PyInt i \<Rightarrow> str_int i | PyStr s \<Rightarrow> s | _ \<Rightarrow> str_of bi v)"

fun contains :: "string \<Rightarrow> string \<Rightarrow> bool" where
  "contains sub [] = (sub = [])"
| "contains sub (x # xs) = (take (length sub) (x # xs) = sub \<or> contains sub xs)"

text \<open>
  \<^verbatim>\<open>s.split(c)\<close> for a one-character separator: the pieces between the separators, never
  an empty list.
\<close>

fun split_on :: "char \<Rightarrow> string \<Rightarrow> string list" where
  "split_on c [] = [[]]"
| "split_on c (x # xs) =
     (if x = c then [] # split_on c xs
      else (case split_on c xs of
              [] \<Rightarrow> [[x]]
            | piece # pieces \<Rightarrow> (x # piece) # pieces))"

text \<open>\<^verbatim>\<open>sep.join(parts)\<close>.\<close>

fun join :: "string \<Rightarrow> string list \<Rightarrow> string" where
  "join sep [] = []"
| "join sep [p] = p"
| "join sep (p # q # rest) = p @ sep @ join sep (q # rest)"

section \<open>JSON documents\<close>

text \<open>
  What \<^verbatim>\<open>json.dumps(d, default=str)\<close> writes for a flat dictionary: the members in the
  dictionary's order, each value as a JSON null, number or string. A value that JSON cannot
  hold (a decimal, a datetime) goes through \<^verbatim>\<open>default=str\<close> and becomes a string. The
  payload bytes are the UTF-8 text of this document; the model keeps the document.
\<close>

datatype json = JNull | JInt int | JFloat real | JStr string

definition json_value :: "builtins \<Rightarrow> pyval \<Rightarrow> json" where
  "json_value bi v =
     (case v of
        PyNone \<Rightarrow> JNull
      | PyInt i \<Rightarrow> JInt i
      | PyFloat r \<Rightarrow> JFloat r
      | PyStr s \<Rightarrow> JStr s
      | PyDecimal d \<Rightarrow> JStr (str_of bi v)
      | PyDatetime t \<Rightarrow> JStr (str_of bi v))"

definition json_dumps :: "builtins \<Rightarrow> (string \<times> pyval) list \<Rightarrow> (string \<times> json) list" where
  "json_dumps bi d = map (\<lambda>(k, v). (k, json_value bi v)) d"

section \<open>Mock transport (app/services/mock_pubsub.py)\<close>

record 'b MockPubSubMessage =
  message_id :: string
  topic :: string
  data :: 'b
  timestamp :: datetime
  attributes :: "(string \<times> string) list"

text \<open>
  \<^verbatim>\<open>MockPublisherClient\<close>. \<^verbatim>\<open>published_messages\<close> is a
  \<^verbatim>\<open>defaultdict(list)\<close>: a topic that has no entry reads as the empty list.
\<close>

record 'b MockPublisherClient =
  project_id :: string
  published_messages :: "string \<rightharpoonup> 'b MockPubSubMessage list"
  message_counter :: int
  max_messages_per_topic :: int

definition MockPublisherClient_init :: "string \<Rightarrow> 'b MockPublisherClient" where
  "MockPublisherClient_init gcp_project_id =
     \<lparr> project_id = (if gcp_project_id \<noteq> [] then gcp_project_id else ''mock-project''),
       published_messages = Map.empty,
       message_counter = 0,
       max_messages_per_topic = 1000 \<rparr>"

definition topic_path :: "string \<Rightarrow> string \<Rightarrow> string" where
  "topic_path project topic_name = ''projects/'' @ project @ ''/topics/'' @ topic_name"

text \<open>The buffer of a topic: \<^verbatim>\<open>self.published_messages[topic_name]\<close>.\<close>

definition buffer :: "'b MockPublisherClient \<Rightarrow> string \<Rightarrow> 'b MockPubSubMessage list" where
  "buffer c topic_name =
     (case published_messages c topic_name of None \<Rightarrow> [] | Some msgs \<Rightarrow> msgs)"

definition topic_name_of :: "string \<Rightarrow> string" where
  "topic_name_of path = last (split_on CHR ''/'' path)"

text \<open>
  \<^verbatim>\<open>MockPublisherClient.publish\<close>, with the two clock readings it makes
  (\<^verbatim>\<open>time.time()\<close> for the message id, \<^verbatim>\<open>datetime.now(UTC)\<close> for the message) as
  arguments. The result is the message id that the returned \<^verbatim>\<open>MockFuture\<close> holds.
  \<^verbatim>\<open>pop(0)\<close> on an empty list raises \<^verbatim>\<open>IndexError\<close>; by then the counter has been
  advanced and the topic's entry created.
\<close>

definition publish ::
  "'b MockPublisherClient \<Rightarrow> string \<Rightarrow> 'b \<Rightarrow> real \<Rightarrow> datetime
     \<Rightarrow> (exn + string) \<times> 'b MockPublisherClient" where
  "publish c path payload now stamp =
     (let topic_name = topic_name_of path;
          c1 = c\<lparr> message_counter := message_counter c + 1 \<rparr>;
          mid = ''mock-msg-'' @ str_int (trunc now) @ ''-'' @ str_int (message_counter c1);
          message = \<lparr> message_id = mid, topic = topic_name, data = payload,
                      timestamp = stamp, attributes = [] \<rparr>;
          msgs = buffer c1 topic_name
      in if int (length msgs) \<ge> max_messages_per_topic c1 then
           (case msgs of
              [] \<Rightarrow> (Inl (IndexError ''pop from empty list''),
                     c1\<lparr> published_messages := (published_messages c1)(topic_name \<mapsto> []) \<rparr>)
            | oldest # rest \<Rightarrow>
                (Inr mid,
                 c1\<lparr> published_messages :=
                       (published_messages c1)(topic_name \<mapsto> rest @ [message]) \<rparr>))
         else
           (Inr mid,
            c1\<lparr> published_messages :=
                  (published_messages c1)(topic_name \<mapsto> msgs @ [message]) \<rparr>))"


text \<open>
  \<^verbatim>\<open>MockPubSubService\<close>: its own client and the topic mapping of the settings. Its
  \<^verbatim>\<open>MockCircuitBreaker.call\<close> just applies the function it is given.
\<close>

record 'b MockPubSubService =
  mock_project_id :: string
  mock_topic_mapping :: "(string \<times> string) list"
  client :: "'b MockPublisherClient"

definition MockCircuitBreaker_call :: "('s \<Rightarrow> 'r) \<Rightarrow> 's \<Rightarrow> 'r" where
  "MockCircuitBreaker_call func s = func s"

definition mock_get_topic_path :: "'b MockPubSubService \<Rightarrow> string \<Rightarrow> exn + string" where
  "mock_get_topic_path svc sensor_type =
     (case map_of (mock_topic_mapping svc) sensor_type of
        None \<Rightarrow> Inl (ValueError (''No topic mapping found for sensor type: '' @ sensor_type))
      | Some topic_name \<Rightarrow>
          if topic_name = []
          then Inl (ValueError (''No topic mapping found for sensor type: '' @ sensor_type))
          else Inr (topic_path (mock_project_id svc) topic_name))"

definition mock_publish_message ::
  "string \<Rightarrow> 'b \<Rightarrow> real \<Rightarrow> datetime \<Rightarrow> 'b MockPublisherClient
     \<Rightarrow> (exn + string) \<times> 'b MockPublisherClient" where
  "mock_publish_message path message_data now stamp c = publish c path message_data now stamp"

text \<open>
  \<^verbatim>\<open>MockPubSubService.publish_sensor_data\<close>: the dictionary it is given is serialised as
  it is.
\<close>

definition mock_publish_sensor_data ::
  "builtins \<Rightarrow> (string \<times> json) list MockPubSubService \<Rightarrow> string \<Rightarrow> (string \<times> pyval) list
     \<Rightarrow> real \<Rightarrow> datetime
     \<Rightarrow> (exn + string) \<times> (string \<times> json) list MockPubSubService" where
  "mock_publish_sensor_data bi svc sensor_type d now stamp =
     (case mock_get_topic_path svc sensor_type of
        Inl e \<Rightarrow> (Inl e, svc)
      | Inr path \<Rightarrow>
          let message_data = json_dumps bi d;
              (r, c') = MockCircuitBreaker_call
                          (mock_publish_message path message_data now stamp) (client svc)
          in (r, svc\<lparr> client := c' \<rparr>))"

section \<open>Sensor readings (app/models/sensor.py, app/api/sensors.py)\<close>

datatype SensorType = TEMPERATURE | HUMIDITY | NDIR

fun SensorType_value :: "SensorType \<Rightarrow> string" where
  "SensorType_value TEMPERATURE = ''temperature''"
| "SensorType_value HUMIDITY = ''humidity''"
| "SensorType_value NDIR = ''ndir''"

text \<open>
  \<^verbatim>\<open>SensorType(x)\<close>: the member whose value is \<open>x\<close>; \<^verbatim>\<open>ValueError\<close> for anything
  else, also for a value that is not a string.
\<close>

definition SensorType_of :: "pyval \<Rightarrow> exn + SensorType" where
  "SensorType_of v =
     (if v = PyStr ''temperature'' then Inr TEMPERATURE
      else if v = PyStr ''humidity'' then Inr HUMIDITY
      else if v = PyStr ''ndir'' then Inr NDIR
      else Inl (ValueError ''is not a valid SensorType''))"

text \<open>
  A validated \<^verbatim>\<open>SensorData\<close>. The fields \<^verbatim>\<open>value\<close>, \<^verbatim>\<open>latitude\<close> and
  \<^verbatim>\<open>longitude\<close> are \<^verbatim>\<open>Union[float, Decimal]\<close>.
\<close>

datatype number = Float real | Decimal real

fun number_val :: "number \<Rightarrow> pyval" where
  "number_val (Float r) = PyFloat r"
| "number_val (Decimal d) = PyDecimal d"

text \<open>\<^verbatim>\<open>float(x)\<close> on such a number: a float is returned as it is, a decimal is rounded.\<close>

fun to_float :: "builtins \<Rightarrow> number \<Rightarrow> real" where
  "to_float bi (Float r) = r"
| "to_float bi (Decimal d) = float_of_decimal bi d"

record SensorData =
  sd_device_id :: int
  sd_sensor_type :: SensorType
  sd_value :: number
  sd_latitude :: number
  sd_longitude :: number
  sd_timestamp :: datetime

text \<open>
  The dictionary that \<^verbatim>\<open>submit_sensor_data\<close> builds and hands to
  \<^verbatim>\<open>publish_sensor_data\<close>: \<^verbatim>\<open>sensor_data.dict()\<close> with the sensor type replaced by
  its value and the timestamp by \<^verbatim>\<open>timestamp.isoformat()\<close>. \<open>isoformat\<close> is the
  ISO-8601 text of a datetime.
\<close>

definition sensor_dict :: "(datetime \<Rightarrow> string) \<Rightarrow> SensorData \<Rightarrow> (string \<times> pyval) list" where
  "sensor_dict isoformat sd =
     [(''device_id'', PyInt (sd_device_id sd)),
      (''sensor_type'', PyStr (SensorType_value (sd_sensor_type sd))),
      (''value'', number_val (sd_value sd)),
      (''latitude'', number_val (sd_latitude sd)),
      (''longitude'', number_val (sd_longitude sd)),
      (''timestamp'', PyStr (isoformat (sd_timestamp sd)))]"

section \<open>Retry policy (the decorator of \<^verbatim>\<open>_publish_message\<close>, app/services/pubsub.py)\<close>

text \<open>
  What the process can ask of the world it runs in: \<^verbatim>\<open>time.time()\<close>,
  \<^verbatim>\<open>datetime.now(UTC)\<close>, \<^verbatim>\<open>datetime.utcnow().isoformat()\<close> and
  \<^verbatim>\<open>time.sleep(seconds)\<close>.
\<close>

record 'w env =
  time_time :: "'w \<Rightarrow> real"
  datetime_now :: "'w \<Rightarrow> datetime"
  utcnow_isoformat :: "'w \<Rightarrow> string"
  time_sleep :: "real \<Rightarrow> 'w \<Rightarrow> 'w"

definition retry_if_exception_type :: "exn list \<Rightarrow> exn \<Rightarrow> bool" where
  "retry_if_exception_type kinds e = (e \<in> set kinds)"

definition stop_after_attempt :: "nat \<Rightarrow> nat \<Rightarrow> bool" where
  "stop_after_attempt max_attempt_number attempt_number = (attempt_number \<ge> max_attempt_number)"

definition wait_exponential :: "real \<Rightarrow> real \<Rightarrow> real \<Rightarrow> nat \<Rightarrow> real" where
  "wait_exponential multiplier mn mx attempt_number =
     max (max 0 mn) (min (multiplier * 2 ^ (attempt_number - 1)) mx)"

text \<open>
  The loop that the \<^verbatim>\<open>@retry(stop=..., wait=..., retry=...)\<close> decorator of the tenacity
  library puts around a function. The decorator is given no \<^verbatim>\<open>reraise\<close> argument, so
  the library's default applies: when the stop condition holds after a failed attempt that
  the retry condition accepts, the loop raises \<^verbatim>\<open>RetryError\<close>, which wraps the last
  attempt, in place of the attempt's own exception. An exception that the retry condition
  does not accept is raised as it is; a result is returned as it is. Between two attempts
  the loop sleeps for the time the wait strategy gives for the attempt just made.
  \<open>attempt_number\<close> counts the attempts from 1 and is returned with the outcome.
  (tenacity's own \<^verbatim>\<open>TryAgain\<close> signal, which the publish client does not raise, is not
  among the exceptions of the model.)
\<close>

function retry_call ::
  "nat \<Rightarrow> (nat \<Rightarrow> real) \<Rightarrow> (exn \<Rightarrow> bool) \<Rightarrow> (real \<Rightarrow> 'w \<Rightarrow> 'w) \<Rightarrow> ('w \<Rightarrow> (exn + 'a) \<times> 'w)
     \<Rightarrow> nat \<Rightarrow> 'w \<Rightarrow> (exn + 'a) \<times> nat \<times> 'w" where
  "retry_call max_attempt_number wait retry sleep fn attempt_number w =
     (case fn w of
        (Inr result, w') \<Rightarrow> (Inr result, attempt_number, w')
      | (Inl e, w') \<Rightarrow>
          if \<not> retry e then (Inl e, attempt_number, w')
          else if stop_after_attempt max_attempt_number attempt_number
          then (Inl (RetryError e), attempt_number, w')
          else retry_call max_attempt_number wait retry sleep fn (Suc attempt_number)
                 (sleep (wait attempt_number) w'))"
  by pat_completeness auto
termination
  by (relation "measure (\<lambda>(max_attempt_number, wait, retry, sleep, fn, attempt_number, w).
                           max_attempt_number - attempt_number)")
     (auto simp: stop_after_attempt_def)

declare retry_call.simps [simp del]

section \<open>Publish pipeline (app/services/pubsub.py)\<close>

text \<open>
  \<^verbatim>\<open>PubSubService\<close>. The real service owns a circuit breaker, the mock one delegates to
  a \<^verbatim>\<open>MockPubSubService\<close>; the record holds both, and \<^verbatim>\<open>using_mock\<close> says which one
  is in use. The payload of a message is the JSON document of the reading.
\<close>

type_synonym payload = "(string \<times> json) list"

record PubSubService =
  svc_project_id :: string
  topic_mapping :: "(string \<times> string) list"
  using_mock :: bool
  circuit_breaker :: CircuitBreaker
  mock_service :: "payload MockPubSubService"

text \<open>
  The publish call of the real client, \<^verbatim>\<open>client.publish(topic_path, data)\<close> followed by
  \<^verbatim>\<open>future.result(timeout)\<close>, is a parameter: it takes topic path, payload and world and
  gives a message id or an exception, and the next world.
\<close>

type_synonym 'w transport = "string \<Rightarrow> payload \<Rightarrow> 'w \<Rightarrow> (exn + string) \<times> 'w"

definition get_topic_path :: "PubSubService \<Rightarrow> string \<Rightarrow> exn + string" where
  "get_topic_path svc sensor_type =
     (case map_of (topic_mapping svc) sensor_type of
        None \<Rightarrow> Inl (ValueError (''No topic mapping found for sensor type: '' @ sensor_type))
      | Some topic_name \<Rightarrow>
          if topic_name = []
          then Inl (ValueError (''No topic mapping found for sensor type: '' @ sensor_type))
          else if using_mock svc then mock_get_topic_path (mock_service svc) sensor_type
          else Inr (topic_path (svc_project_id svc) topic_name))"

text \<open>
  \<^verbatim>\<open>_transform_data_for_avro_schema\<close>. The dictionary display evaluates
  \<^verbatim>\<open>int(...)\<close> and the three \<^verbatim>\<open>float(...)\<close> in order; the first that raises ends the
  call. \<open>now_iso\<close> is \<^verbatim>\<open>datetime.utcnow().isoformat()\<close>.
\<close>

definition transform_data_for_avro_schema ::
  "builtins \<Rightarrow> string \<Rightarrow> (string \<times> pyval) list \<Rightarrow> exn + (string \<times> pyval) list" where
  "transform_data_for_avro_schema bi now_iso d =
     (let timestamp_value = dict_get d ''timestamp'' PyNone;
          timestamp_str = (case timestamp_value of PyStr s \<Rightarrow> s | _ \<Rightarrow> now_iso @ ''Z'')
      in case py_int bi (dict_get d ''device_id'' (PyInt 0)) of
           Inl e \<Rightarrow> Inl e
         | Inr device_id \<Rightarrow>
       (case py_float bi (dict_get d ''value'' (PyFloat 0)) of
           Inl e \<Rightarrow> Inl e
         | Inr v \<Rightarrow>
       (case py_float bi (dict_get d ''latitude'' (PyFloat 0)) of
           Inl e \<Rightarrow> Inl e
         | Inr lat \<Rightarrow>
       (case py_float bi (dict_get d ''longitude'' (PyFloat 0)) of
           Inl e \<Rightarrow> Inl e
         | Inr lon \<Rightarrow>
             Inr [(''device_id'', PyInt device_id),
                  (''sensor_type'', dict_get d ''sensor_type'' (PyStr [])),
                  (''value'', PyFloat v),
                  (''latitude'', PyFloat lat),
                  (''longitude'', PyFloat lon),
                  (''timestamp'', PyStr timestamp_str)]))))"

text \<open>
  The body of \<^verbatim>\<open>_publish_message\<close> (one attempt), the decorated method with the number
  of attempts it made, and the method as its caller sees it.
\<close>

definition publish_message_body ::
  "bool \<Rightarrow> 'w transport \<Rightarrow> string \<Rightarrow> payload \<Rightarrow> 'w \<Rightarrow> (exn + string) \<times> 'w" where
  "publish_message_body mock client_publish path message_data w =
     (if mock then (Inr ''mock-message-id'', w) else client_publish path message_data w)"

definition transient_errors :: "exn list" where
  "transient_errors = [ServiceUnavailable, DeadlineExceeded, InternalServerError]"

definition publish_message_attempts ::
  "'w env \<Rightarrow> bool \<Rightarrow> 'w transport \<Rightarrow> string \<Rightarrow> payload \<Rightarrow> 'w \<Rightarrow> (exn + string) \<times> nat \<times> 'w" where
  "publish_message_attempts ev mock client_publish path message_data w =
     retry_call 3 (wait_exponential 1 1 10) (retry_if_exception_type transient_errors)
       (time_sleep ev) (publish_message_body mock client_publish path message_data) 1 w"

definition publish_message ::
  "'w env \<Rightarrow> bool \<Rightarrow> 'w transport \<Rightarrow> string \<Rightarrow> payload \<Rightarrow> 'w \<Rightarrow> (exn + string) \<times> 'w" where
  "publish_message ev mock client_publish path message_data w =
     (case publish_message_attempts ev mock client_publish path message_data w of
        (r, attempts, w') \<Rightarrow> (r, w'))"

text \<open>
  \<^verbatim>\<open>PubSubService.publish_sensor_data\<close>. With the mock in use the call is handed to the
  mock service at once; otherwise the topic is resolved, the dictionary transformed and
  serialised, and the retrying \<^verbatim>\<open>_publish_message\<close> run under the circuit breaker.
\<close>

definition publish_sensor_data ::
  "'w env \<Rightarrow> builtins \<Rightarrow> 'w transport \<Rightarrow> PubSubService \<Rightarrow> string \<Rightarrow> (string \<times> pyval) list \<Rightarrow> 'w
     \<Rightarrow> (exn + string) \<times> PubSubService \<times> 'w" where
  "publish_sensor_data ev bi client_publish svc sensor_type d w =
     (if using_mock svc then
        (case mock_publish_sensor_data bi (mock_service svc) sensor_type d
                (time_time ev w) (datetime_now ev w) of
           (r, ms') \<Rightarrow> (r, svc\<lparr> mock_service := ms' \<rparr>, w))
      else
        (case get_topic_path svc sensor_type of
           Inl e \<Rightarrow> (Inl e, svc, w)
         | Inr path \<Rightarrow>
        (case transform_data_for_avro_schema bi (utcnow_isoformat ev w) d of
           Inl e \<Rightarrow> (Inl e, svc, w)
         | Inr transformed_data \<Rightarrow>
             let message_data = json_dumps bi transformed_data
             in case call (time_time ev) (circuit_breaker svc)
                       (publish_message ev False client_publish path message_data) w of
                  (r, cb', w') \<Rightarrow> (r, svc\<lparr> circuit_breaker := cb' \<rparr>, w'))))"

text \<open>
  The step of \<^verbatim>\<open>submit_sensor_data\<close> that publishes a validated reading.
\<close>

definition submit_sensor_data ::
  "'w env \<Rightarrow> builtins \<Rightarrow> (datetime \<Rightarrow> string) \<Rightarrow> 'w transport \<Rightarrow> PubSubService \<Rightarrow> SensorData \<Rightarrow> 'w
     \<Rightarrow> (exn + string) \<times> PubSubService \<times> 'w" where
  "submit_sensor_data ev bi isoformat client_publish svc sd w =
     publish_sensor_data ev bi client_publish svc (SensorType_value (sd_sensor_type sd))
       (sensor_dict isoformat sd) w"

text \<open>
  The wire schema of a reading, in the words of the specification: the device id as an
  integer, value, latitude and longitude coerced to floating point numbers (a decimal is
  rounded to the nearest float), the timestamp as its ISO-8601 string.
\<close>

definition wire_schema :: "builtins \<Rightarrow> (datetime \<Rightarrow> string) \<Rightarrow> SensorData \<Rightarrow> payload" where
  "wire_schema bi isoformat sd =
     [(''device_id'', JInt (sd_device_id sd)),
      (''sensor_type'', JStr (SensorType_value (sd_sensor_type sd))),
      (''value'', JFloat (to_float bi (sd_value sd))),
      (''latitude'', JFloat (to_float bi (sd_latitude sd))),
      (''longitude'', JFloat (to_float bi (sd_longitude sd))),
      (''timestamp'', JStr (isoformat (sd_timestamp sd)))]"

text \<open>
  A test world for the pipeline: the clock and the messages that the transport was handed,
  oldest first. \<open>recording_transport\<close> notes what it is handed and answers with the outcome
  that \<open>outcome\<close> gives for the number of messages seen so far.
\<close>

record wire_world =
  ww_now :: real
  ww_sent :: "(string \<times> payload) list"

definition wire_env :: "wire_world env" where
  "wire_env =
     \<lparr> time_time = ww_now,
       datetime_now = (\<lambda>w. Aware \<lfloor>ww_now w * 1000000\<rfloor> 0),
       utcnow_isoformat = (\<lambda>w. ''2024-01-15T12:00:00''),
       time_sleep = (\<lambda>seconds w. w\<lparr> ww_now := ww_now w + seconds \<rparr>) \<rparr>"

definition recording_transport :: "(nat \<Rightarrow> exn + string) \<Rightarrow> wire_world transport" where
  "recording_transport outcome path message_data w =
     (outcome (length (ww_sent w)), w\<lparr> ww_sent := ww_sent w @ [(path, message_data)] \<rparr>)"

definition always_unavailable :: "nat \<Rightarrow> exn + string" where
  "always_unavailable n = Inl ServiceUnavailable"

definition always_accepted :: "nat \<Rightarrow> exn + string" where
  "always_accepted n = Inr ''1''"

text \<open>
  Test values of the library functions: what Python gives on the values that the examples
  use (the decimal 0.1 rounds to the float 3602879701896397 / 2^55; the other numbers of
  the examples are floats already), and an arbitrary answer elsewhere.
\<close>

definition test_builtins :: builtins where
  "test_builtins =
     \<lparr> int_of_str = (\<lambda>s. None),
       float_of_str = (\<lambda>s. None),
       float_of_decimal =
         (\<lambda>d. if d = 1 / 10 then 3602879701896397 / 36028797018963968 else d),
       float_of_int = (\<lambda>i. Some (real_of_int i)),
       str_of =
         (\<lambda>v. if v = PyDecimal (47 / 2) then ''23.5''
              else if v = PyDecimal (1 / 10) then ''0.1''
              else if v = PyFloat 10 then ''10.0''
              else if v = PyFloat 20 then ''20.0''
              else if v = PyFloat (61 / 2) then ''30.5''
              else if v = PyFloat 45 then ''45.0''
              else ''?''),
       datetime_of = (\<lambda>v. None) \<rparr>"

definition test_isoformat :: "datetime \<Rightarrow> string" where
  "test_isoformat t =
     (if t = Aware 1705319940000000 0 then ''2024-01-15T11:59:00+00:00''
      else if t = Naive 1705320000000000 then ''2024-01-15T12:00:00''
      else if t = Naive 1705323600000000 then ''2024-01-15T13:00:00''
      else ''1970-01-01T00:00:00'')"

definition test_service :: "bool \<Rightarrow> PubSubService" where
  "test_service mock =
     \<lparr> svc_project_id = ''proj'',
       topic_mapping = [(''temperature'', ''sensor-temperature''),
                        (''humidity'', ''sensor-humidity''),
                        (''ndir'', ''sensor-ndir'')],
       using_mock = mock,
       circuit_breaker = CircuitBreaker_init 5 60,
       mock_service =
         \<lparr> mock_project_id = ''proj'',
           mock_topic_mapping = [(''temperature'', ''sensor-temperature''),
                                 (''humidity'', ''sensor-humidity''),
                                 (''ndir'', ''sensor-ndir'')],
           client = MockPublisherClient_init ''proj'' \<rparr> \<rparr>"

definition test_reading :: SensorData where
  "test_reading =
     \<lparr> sd_device_id = 12345, sd_sensor_type = TEMPERATURE, sd_value = Decimal (47 / 2),
       sd_latitude = Decimal (1 / 10), sd_longitude = Float (245 / 2),
       sd_timestamp = Aware 1705319940000000 0 \<rparr>"

section \<open>History models (app/models/history.py)\<close>

datatype AggregationType = AggMEAN | AggMIN | AggMAX | AggCOUNT | AggSUM | AggFIRST | AggLAST

fun AggregationType_value :: "AggregationType \<Rightarrow> string" where
  "AggregationType_value AggMEAN = ''mean''"
| "AggregationType_value AggMIN = ''min''"
| "AggregationType_value AggMAX = ''max''"
| "AggregationType_value AggCOUNT = ''count''"
| "AggregationType_value AggSUM = ''sum''"
| "AggregationType_value AggFIRST = ''first''"
| "AggregationType_value AggLAST = ''last''"

text \<open>
  \<^verbatim>\<open>HistoryQueryParams\<close>. The same record serves for the keyword arguments of the
  constructor, as the route handlers pass them (already of the right types), and for the
  validated model.
\<close>

record HistoryQueryParams =
  start_time :: datetime
  end_time :: datetime
  sensor_type :: "SensorType option"
  device_id :: "int option"
  latitude_min :: "real option"
  latitude_max :: "real option"
  longitude_min :: "real option"
  longitude_max :: "real option"
  aggregation :: "AggregationType option"

text \<open>
  The three field validators. Each gets the fields validated before it
  (\<^verbatim>\<open>info.data\<close>, which holds a field only if that field passed its own validation)
  and the value of its field, and returns the value or raises: \<^verbatim>\<open>ValueError\<close> with
  its message when the bound is violated, and, in \<^verbatim>\<open>validate_time_range\<close>, the
  \<^verbatim>\<open>TypeError\<close> of the comparison \<^verbatim>\<open>v <= info.data['start_time']\<close> when one of
  the two datetimes is naive and the other aware.
\<close>

definition validate_time_range :: "datetime option \<Rightarrow> datetime \<Rightarrow> exn + datetime" where
  "validate_time_range data_start_time v =
     (case data_start_time of
        Some start \<Rightarrow>
          (case datetime_le v start of
             Inl e \<Rightarrow> Inl e
           | Inr not_after \<Rightarrow>
               if not_after then Inl (ValueError ''end_time must be after start_time'') else Inr v)
      | None \<Rightarrow> Inr v)"

definition validate_latitude_range :: "real option option \<Rightarrow> real option \<Rightarrow> exn + real option" where
  "validate_latitude_range data_latitude_min v =
     (case v of
        None \<Rightarrow> Inr v
      | Some mx \<Rightarrow>
          (case data_latitude_min of
             Some (Some mn) \<Rightarrow>
               if mx \<le> mn then Inl (ValueError ''latitude_max must be greater than latitude_min'')
               else Inr v
           | _ \<Rightarrow> Inr v))"

definition validate_longitude_range :: "real option option \<Rightarrow> real option \<Rightarrow> exn + real option" where
  "validate_longitude_range data_longitude_min v =
     (case v of
        None \<Rightarrow> Inr v
      | Some mx \<Rightarrow>
          (case data_longitude_min of
             Some (Some mn) \<Rightarrow>
               if mx \<le> mn then Inl (ValueError ''longitude_max must be greater than longitude_min'')
               else Inr v
           | _ \<Rightarrow> Inr v))"

text \<open>The \<^verbatim>\<open>ge\<close>/\<^verbatim>\<open>le\<close> bounds of an optional float field and \<^verbatim>\<open>gt=0\<close>.\<close>

definition in_bounds :: "real \<Rightarrow> real \<Rightarrow> real option \<Rightarrow> bool" where
  "in_bounds lo hi v = (case v of None \<Rightarrow> True | Some x \<Rightarrow> lo \<le> x \<and> x \<le> hi)"

definition positive :: "int option \<Rightarrow> bool" where
  "positive v = (case v of None \<Rightarrow> True | Some d \<Rightarrow> 0 < d)"

text \<open>
  What pydantic makes of the outcome of a field validator: a \<^verbatim>\<open>ValueError\<close> becomes
  one of the messages of the \<^verbatim>\<open>ValidationError\<close> that the constructor will raise; any
  other exception is not caught and leaves the constructor at once, as it is.
\<close>

definition field_outcome :: "exn + 'a \<Rightarrow> exn + string list" where
  "field_outcome r =
     (case r of
        Inr v \<Rightarrow> Inr []
      | Inl e \<Rightarrow> (case e of ValueError m \<Rightarrow> Inr [m] | _ \<Rightarrow> Inl e))"

text \<open>
  The constructor. pydantic validates the fields in the order of their declaration; a
  field's validator runs only if the field passed its declared constraints; the failures
  are collected (\<open>validation_errors\<close>), and if there is any the constructor raises one
  \<^verbatim>\<open>ValidationError\<close>.
\<close>

definition validation_errors :: "HistoryQueryParams \<Rightarrow> exn + string list" where
  "validation_errors kw =
     (case field_outcome (validate_time_range (Some (start_time kw)) (end_time kw)) of
        Inl e \<Rightarrow> Inl e
      | Inr e_end_time \<Rightarrow>
     (let e_device_id = (if positive (device_id kw) then []
                         else [''device_id: Input should be greater than 0'']);
          ok_latitude_min = in_bounds (- 90) 90 (latitude_min kw);
          e_latitude_min = (if ok_latitude_min then [] else [''latitude_min: out of range''])
      in case (if in_bounds (- 90) 90 (latitude_max kw)
               then field_outcome (validate_latitude_range
                                     (if ok_latitude_min then Some (latitude_min kw) else None)
                                     (latitude_max kw))
               else Inr [''latitude_max: out of range'']) of
           Inl e \<Rightarrow> Inl e
         | Inr e_latitude_max \<Rightarrow>
     (let ok_longitude_min = in_bounds (- 180) 180 (longitude_min kw);
          e_longitude_min = (if ok_longitude_min then [] else [''longitude_min: out of range''])
      in case (if in_bounds (- 180) 180 (longitude_max kw)
               then field_outcome (validate_longitude_range
                                     (if ok_longitude_min then Some (longitude_min kw) else None)
                                     (longitude_max kw))
               else Inr [''longitude_max: out of range'']) of
           Inl e \<Rightarrow> Inl e
         | Inr e_longitude_max \<Rightarrow>
             Inr (e_end_time @ e_device_id @ e_latitude_min @ e_latitude_max
                  @ e_longitude_min @ e_longitude_max))))"

definition HistoryQueryParams_init :: "HistoryQueryParams \<Rightarrow> exn + HistoryQueryParams" where
  "HistoryQueryParams_init kw =
     (case validation_errors kw of
        Inl e \<Rightarrow> Inl e
      | Inr errors \<Rightarrow> if errors = [] then Inr kw else Inl (ValidationError errors))"

record HistoricalDataPoint =
  hdp_timestamp :: datetime
  hdp_device_id :: int
  hdp_sensor_type :: SensorType
  hdp_value :: real
  hdp_latitude :: real
  hdp_longitude :: real

record AggregatedDataPoint =
  adp_sensor_type :: SensorType
  adp_device_id :: "int option"
  adp_aggregation_type :: AggregationType
  adp_value :: real
  adp_count :: int
  adp_start_time :: datetime
  adp_end_time :: datetime

text \<open>
  \<^verbatim>\<open>DeviceInfo\<close>. \<^verbatim>\<open>sensor_types\<close> is built as \<^verbatim>\<open>list(set(...))\<close>, whose order
  Python does not fix: the model keeps the set.
\<close>

record DeviceInfo =
  di_device_id :: int
  di_sensor_types :: "SensorType set"
  di_first_seen :: datetime
  di_last_seen :: datetime
  di_total_measurements :: int
  di_last_location :: "real \<times> real"

section \<open>Query builder (app/services/influxdb.py)\<close>

record InfluxDBService =
  bucket :: string
  org :: string

definition from_clause :: "string \<Rightarrow> string" where
  "from_clause b = ''from(bucket: \"'' @ b @ ''\")''"

definition range_clause :: "(datetime \<Rightarrow> string) \<Rightarrow> datetime \<Rightarrow> datetime \<Rightarrow> string" where
  "range_clause isoformat start stop =
     ''|> range(start: '' @ isoformat start @ ''Z, stop: '' @ isoformat stop @ ''Z)''"

definition measurement_clause :: string where
  "measurement_clause = ''|> filter(fn: (r) => r[\"_measurement\"] == \"sensor_data\")''"

definition sensor_type_clause :: "SensorType \<Rightarrow> string" where
  "sensor_type_clause st =
     ''|> filter(fn: (r) => r[\"sensor_type\"] == \"'' @ SensorType_value st @ ''\")''"

definition device_id_clause :: "int \<Rightarrow> string" where
  "device_id_clause d = ''|> filter(fn: (r) => r[\"device_id\"] == \"'' @ str_int d @ ''\")''"

definition latitude_min_clause :: "builtins \<Rightarrow> real \<Rightarrow> string" where
  "latitude_min_clause bi v = ''|> filter(fn: (r) => r[\"latitude\"] >= '' @ str_of bi (PyFloat v) @ '')''"

definition latitude_max_clause :: "builtins \<Rightarrow> real \<Rightarrow> string" where
  "latitude_max_clause bi v = ''|> filter(fn: (r) => r[\"latitude\"] <= '' @ str_of bi (PyFloat v) @ '')''"

definition longitude_min_clause :: "builtins \<Rightarrow> real \<Rightarrow> string" where
  "longitude_min_clause bi v = ''|> filter(fn: (r) => r[\"longitude\"] >= '' @ str_of bi (PyFloat v) @ '')''"

definition longitude_max_clause :: "builtins \<Rightarrow> real \<Rightarrow> string" where
  "longitude_max_clause bi v = ''|> filter(fn: (r) => r[\"longitude\"] <= '' @ str_of bi (PyFloat v) @ '')''"

text \<open>
  The list \<^verbatim>\<open>query_parts\<close> of \<^verbatim>\<open>_build_base_query\<close>. The sensor type and the device
  id are tested for truth (\<^verbatim>\<open>if params.sensor_type:\<close>: a string enum member is true
  iff its value is not empty; an integer iff it is not zero), the four bounds for
  \<^verbatim>\<open>is not None\<close>.
\<close>

definition query_parts ::
  "builtins \<Rightarrow> (datetime \<Rightarrow> string) \<Rightarrow> InfluxDBService \<Rightarrow> HistoryQueryParams \<Rightarrow> string list" where
  "query_parts bi isoformat svc params =
     [from_clause (bucket svc),
      range_clause isoformat (start_time params) (end_time params),
      measurement_clause]
     @ (case sensor_type params of
          None \<Rightarrow> []
        | Some st \<Rightarrow> if SensorType_value st \<noteq> [] then [sensor_type_clause st] else [])
     @ (case device_id params of
          None \<Rightarrow> []
        | Some d \<Rightarrow> if d \<noteq> 0 then [device_id_clause d] else [])
     @ (case latitude_min params of None \<Rightarrow> [] | Some v \<Rightarrow> [latitude_min_clause bi v])
     @ (case latitude_max params of None \<Rightarrow> [] | Some v \<Rightarrow> [latitude_max_clause bi v])
     @ (case longitude_min params of None \<Rightarrow> [] | Some v \<Rightarrow> [longitude_min_clause bi v])
     @ (case longitude_max params of None \<Rightarrow> [] | Some v \<Rightarrow> [longitude_max_clause bi v])"

definition line_break :: string where
  "line_break = [CHR 0x0A, CHR '' '', CHR '' '']"

definition build_base_query ::
  "builtins \<Rightarrow> (datetime \<Rightarrow> string) \<Rightarrow> InfluxDBService \<Rightarrow> HistoryQueryParams \<Rightarrow> string" where
  "build_base_query bi isoformat svc params = join line_break (query_parts bi isoformat svc params)"

text \<open>
  Notation for the lines that follow the \<^verbatim>\<open>from\<close> line when the sensor type and the device
  id, where given, are true values: the texts of the source, written out.
\<close>

abbreviation filter_lines ::
  "builtins \<Rightarrow> (datetime \<Rightarrow> string) \<Rightarrow> HistoryQueryParams \<Rightarrow> string list" where
  "filter_lines bi isoformat params \<equiv>
     [''|> range(start: '' @ isoformat (start_time params) @ ''Z, stop: ''
        @ isoformat (end_time params) @ ''Z)'',
      ''|> filter(fn: (r) => r[\"_measurement\"] == \"sensor_data\")'']
     @ (case sensor_type params of
          None \<Rightarrow> []
        | Some st \<Rightarrow>
            [''|> filter(fn: (r) => r[\"sensor_type\"] == \"'' @ SensorType_value st @ ''\")''])
     @ (case device_id params of
          None \<Rightarrow> []
        | Some d \<Rightarrow> [''|> filter(fn: (r) => r[\"device_id\"] == \"'' @ str_int d @ ''\")''])
     @ (case latitude_min params of
          None \<Rightarrow> []
        | Some v \<Rightarrow> [''|> filter(fn: (r) => r[\"latitude\"] >= '' @ str_of bi (PyFloat v) @ '')''])
     @ (case latitude_max params of
          None \<Rightarrow> []
        | Some v \<Rightarrow> [''|> filter(fn: (r) => r[\"latitude\"] <= '' @ str_of bi (PyFloat v) @ '')''])
     @ (case longitude_min params of
          None \<Rightarrow> []
        | Some v \<Rightarrow> [''|> filter(fn: (r) => r[\"longitude\"] >= '' @ str_of bi (PyFloat v) @ '')''])
     @ (case longitude_max params of
          None \<Rightarrow> []
        | Some v \<Rightarrow> [''|> filter(fn: (r) => r[\"longitude\"] <= '' @ str_of bi (PyFloat v) @ '')''])"

text \<open>
  \<^verbatim>\<open>_build_aggregation_query\<close>: \<^verbatim>\<open>aggregation_map.get(aggregation, "mean")\<close> finds every
  member of the enumeration, and gives "mean" for \<^verbatim>\<open>None\<close>.
\<close>

definition build_aggregation_query :: "string \<Rightarrow> AggregationType option \<Rightarrow> string" where
  "build_aggregation_query base_query agg =
     (let agg_func = (case agg of None \<Rightarrow> ''mean'' | Some a \<Rightarrow> AggregationType_value a)
      in [CHR 0x0A] @ base_query @ [CHR 0x0A]
         @ ''  |> filter(fn: (r) => r[\"_field\"] == \"value\")'' @ [CHR 0x0A]
         @ ''  |> group(columns: [\"sensor_type\", \"device_id\"])'' @ [CHR 0x0A]
         @ ''  |> '' @ agg_func @ ''()'' @ [CHR 0x0A]
         @ ''  |> yield(name: \"aggregated\")'' @ [CHR 0x0A])"

section \<open>Store results\<close>

text \<open>
  A \<^verbatim>\<open>FluxRecord\<close> of the store client: its \<^verbatim>\<open>table\<close> attribute and its
  \<^verbatim>\<open>values\<close> dictionary. \<^verbatim>\<open>record.get_time()\<close> and \<^verbatim>\<open>record.get_value()\<close> read
  the keys \<^verbatim>\<open>_time\<close> and \<^verbatim>\<open>_value\<close> of the dictionary and raise \<^verbatim>\<open>KeyError\<close>
  when the key is missing. A table is the list of its records.
\<close>

record FluxRecord =
  rec_table :: pyval
  rec_values :: "(string \<times> pyval) list"

type_synonym FluxTable = "FluxRecord list"

definition get_item :: "FluxRecord \<Rightarrow> string \<Rightarrow> exn + pyval" where
  "get_item r key = (case map_of (rec_values r) key of None \<Rightarrow> Inl (KeyError key) | Some v \<Rightarrow> Inr v)"

definition get_time :: "FluxRecord \<Rightarrow> exn + pyval" where
  "get_time r = get_item r ''_time''"

definition get_value :: "FluxRecord \<Rightarrow> exn + pyval" where
  "get_value r = get_item r ''_value''"

definition values_get :: "FluxRecord \<Rightarrow> string \<Rightarrow> pyval \<Rightarrow> pyval" where
  "values_get r key dflt = dict_get (rec_values r) key dflt"

definition has_key :: "FluxRecord \<Rightarrow> string \<Rightarrow> bool" where
  "has_key r key = (map_of (rec_values r) key \<noteq> None)"

text \<open>
  The store: \<^verbatim>\<open>query_api.query(query, org=org)\<close> takes the query text and the
  organisation and gives the tables of the result, or raises.
\<close>

type_synonym 'w store = "string \<Rightarrow> string \<Rightarrow> 'w \<Rightarrow> (exn + FluxTable list) \<times> 'w"

text \<open>What a \<^verbatim>\<open>datetime\<close> field of a pydantic model accepts.\<close>

definition to_datetime :: "builtins \<Rightarrow> pyval \<Rightarrow> datetime option" where
  "to_datetime bi v = (case v of PyDatetime t \<Rightarrow> Some t | _ \<Rightarrow> datetime_of bi v)"

text \<open>
  Two values are the same dictionary key when they are equal, and Python's numbers are
  equal across \<^verbatim>\<open>int\<close>, \<^verbatim>\<open>float\<close> and \<^verbatim>\<open>Decimal\<close>: \<open>canon\<close> picks one
  representative.
\<close>

definition canon :: "pyval \<Rightarrow> pyval" where
  "canon v = (case v of PyInt i \<Rightarrow> PyFloat (real_of_int i) | PyDecimal d \<Rightarrow> PyFloat d | _ \<Rightarrow> v)"

section \<open>Historical queries (app/services/influxdb.py)\<close>

text \<open>
  The body of a \<^verbatim>\<open>try: ... except (ValueError, TypeError): continue\<close> inside a loop over
  records gives \<open>Inr None\<close> when the record is skipped, \<open>Inr (Some x)\<close> when it yields
  \<open>x\<close>, and \<open>Inl e\<close> when an exception that the clause does not catch leaves the loop.
\<close>

definition attempt :: "exn + 'a \<Rightarrow> ('a \<Rightarrow> exn + 'b option) \<Rightarrow> exn + 'b option" where
  "attempt x k =
     (case x of
        Inl e \<Rightarrow> if is_ValueError_or_TypeError e then Inr None else Inl e
      | Inr v \<Rightarrow> k v)"

fun collect :: "('r \<Rightarrow> exn + 'a option) \<Rightarrow> 'r list \<Rightarrow> exn + 'a list" where
  "collect f [] = Inr []"
| "collect f (r # rs) =
     (case f r of
        Inl e \<Rightarrow> Inl e
      | Inr p \<Rightarrow>
          (case collect f rs of
             Inl e \<Rightarrow> Inl e
           | Inr ps \<Rightarrow> Inr (case p of None \<Rightarrow> ps | Some x \<Rightarrow> x # ps)))"

definition historical_point :: "builtins \<Rightarrow> FluxRecord \<Rightarrow> exn + HistoricalDataPoint option" where
  "historical_point bi r =
     attempt (get_time r) (\<lambda>ts.
     attempt (py_int bi (values_get r ''device_id'' (PyInt 0))) (\<lambda>dev.
     attempt (SensorType_of (values_get r ''sensor_type'' (PyStr ''temperature''))) (\<lambda>st.
     attempt (py_float bi (values_get r ''value'' (PyFloat 0))) (\<lambda>v.
     attempt (py_float bi (values_get r ''latitude'' (PyFloat 0))) (\<lambda>lat.
     attempt (py_float bi (values_get r ''longitude'' (PyFloat 0))) (\<lambda>lon.
       case to_datetime bi ts of
         None \<Rightarrow> Inr None
       | Some t \<Rightarrow>
           Inr (Some \<lparr> hdp_timestamp = t, hdp_device_id = dev, hdp_sensor_type = st,
                       hdp_value = v, hdp_latitude = lat, hdp_longitude = lon \<rparr>)))))))"

definition historical_query :: "string \<Rightarrow> string" where
  "historical_query base_query =
     [CHR 0x0A] @ base_query @ [CHR 0x0A]
     @ ''  |> pivot(rowKey: [\"_time\"], columnKey: [\"_field\"], valueColumn: \"_value\")'' @ [CHR 0x0A]
     @ ''  |> sort(columns: [\"_time\"])'' @ [CHR 0x0A]"

definition query_historical_data ::
  "builtins \<Rightarrow> (datetime \<Rightarrow> string) \<Rightarrow> InfluxDBService \<Rightarrow> 'w store \<Rightarrow> HistoryQueryParams \<Rightarrow> 'w
     \<Rightarrow> (exn + HistoricalDataPoint list) \<times> 'w" where
  "query_historical_data bi isoformat svc query params w =
     (let base_query = build_base_query bi isoformat svc params
      in case query (historical_query base_query) (org svc) w of
           (Inl e, w') \<Rightarrow> (Inl e, w')
         | (Inr tables, w') \<Rightarrow> (collect (historical_point bi) (concat tables), w'))"

text \<open>
  \<^verbatim>\<open>query_aggregated_data\<close>. The count mapping is a dictionary keyed by the pair
  (sensor type, device id) of a count record; a later record with the same key replaces
  the count of an earlier one. An exception while the mapping is built is not caught in
  the loop and fails the query.
\<close>

definition record_key :: "FluxRecord \<Rightarrow> pyval \<times> pyval" where
  "record_key r =
     (canon (values_get r ''sensor_type'' PyNone), canon (values_get r ''device_id'' PyNone))"

definition count_value :: "builtins \<Rightarrow> FluxRecord \<Rightarrow> exn + int" where
  "count_value bi r =
     (case get_value r of Inl e \<Rightarrow> Inl e | Inr v \<Rightarrow> py_int bi (py_or v (PyInt 0)))"

fun build_count_map ::
  "builtins \<Rightarrow> (pyval \<times> pyval \<rightharpoonup> int) \<Rightarrow> FluxRecord list \<Rightarrow> exn + (pyval \<times> pyval \<rightharpoonup> int)" where
  "build_count_map bi count_map [] = Inr count_map"
| "build_count_map bi count_map (r # rs) =
     (case count_value bi r of
        Inl e \<Rightarrow> Inl e
      | Inr c \<Rightarrow> build_count_map bi (count_map(record_key r \<mapsto> c)) rs)"

text \<open>\<^verbatim>\<open>count_map.get(key, 0)\<close>.\<close>

definition lookup0 :: "('k \<rightharpoonup> int) \<Rightarrow> 'k \<Rightarrow> int" where
  "lookup0 m k = (case m k of None \<Rightarrow> 0 | Some c \<Rightarrow> c)"

definition aggregated_point ::
  "builtins \<Rightarrow> HistoryQueryParams \<Rightarrow> (pyval \<times> pyval \<rightharpoonup> int) \<Rightarrow> FluxRecord
     \<Rightarrow> exn + AggregatedDataPoint option" where
  "aggregated_point bi params count_map r =
     (let sensor_type = values_get r ''sensor_type'' PyNone;
          device_id = values_get r ''device_id'' PyNone;
          key = (canon sensor_type, canon device_id);
          count = lookup0 count_map key
      in attempt (SensorType_of sensor_type) (\<lambda>st.
         attempt (if truthy device_id then map_sum id Some (py_int bi device_id) else Inr None) (\<lambda>dev.
         attempt (get_value r) (\<lambda>v.
         attempt (py_float bi (py_or v (PyFloat 0))) (\<lambda>x.
           case aggregation params of
             None \<Rightarrow> Inr None
           | Some agg \<Rightarrow>
               Inr (Some \<lparr> adp_sensor_type = st, adp_device_id = dev,
                           adp_aggregation_type = agg, adp_value = x, adp_count = count,
                           adp_start_time = start_time params,
                           adp_end_time = end_time params \<rparr>))))))"

definition query_aggregated_data ::
  "builtins \<Rightarrow> (datetime \<Rightarrow> string) \<Rightarrow> InfluxDBService \<Rightarrow> 'w store \<Rightarrow> HistoryQueryParams \<Rightarrow> 'w
     \<Rightarrow> (exn + AggregatedDataPoint list) \<times> 'w" where
  "query_aggregated_data bi isoformat svc query params w =
     (let base_query = build_base_query bi isoformat svc params;
          agg_query = build_aggregation_query base_query (aggregation params)
      in case query agg_query (org svc) w of
           (Inl e, w1) \<Rightarrow> (Inl e, w1)
         | (Inr tables, w1) \<Rightarrow>
             (let count_query = build_aggregation_query base_query (Some AggCOUNT)
              in case query count_query (org svc) w1 of
                   (Inl e, w2) \<Rightarrow> (Inl e, w2)
                 | (Inr count_tables, w2) \<Rightarrow>
                     (case build_count_map bi Map.empty (concat count_tables) of
                        Inl e \<Rightarrow> (Inl e, w2)
                      | Inr count_map \<Rightarrow>
                          (collect (aggregated_point bi params count_map) (concat tables), w2))))"

text \<open>
  The count that the specification gives to a group: the count of the group's row in the
  result of the count pipeline (the last one, should there be several), and 0 when the
  count result has no row for the group.
\<close>

definition joined_count :: "builtins \<Rightarrow> FluxRecord list \<Rightarrow> pyval \<times> pyval \<Rightarrow> int" where
  "joined_count bi count_records key =
     (let matches = filter (\<lambda>r. record_key r = key) count_records
      in if matches = [] then 0
         else (case count_value bi (last matches) of Inl e \<Rightarrow> 0 | Inr c \<Rightarrow> c))"

section \<open>Route handlers (app/api/history.py)\<close>

text \<open>
  \<^verbatim>\<open>HTTPException(status_code, detail)\<close>; the exception whose text the detail quotes, if
  any, is kept beside the fixed part of the detail.
\<close>

datatype http_exception = HTTPException int string "exn option"

record 'a data_response =
  resp_data :: "'a list"
  resp_total_count :: int
  resp_query_params :: HistoryQueryParams
  resp_execution_time_ms :: real

text \<open>
  \<^verbatim>\<open>get_historical_data\<close> and \<^verbatim>\<open>get_aggregated_data\<close>: the parameters are
  constructed first; a \<^verbatim>\<open>ValueError\<close> (pydantic's \<^verbatim>\<open>ValidationError\<close> is one)
  becomes status 422, any other exception status 500. \<^verbatim>\<open>get_historical_data\<close> passes no
  aggregation, so the field takes its default.
\<close>

definition translate :: "string \<Rightarrow> exn \<Rightarrow> http_exception" where
  "translate what e =
     (if is_ValueError e then HTTPException 422 ''Query validation failed: '' (Some e)
      else HTTPException 500 what None)"

definition get_historical_data ::
  "'w env \<Rightarrow> builtins \<Rightarrow> (datetime \<Rightarrow> string) \<Rightarrow> InfluxDBService \<Rightarrow> 'w store \<Rightarrow> HistoryQueryParams \<Rightarrow> 'w
     \<Rightarrow> (http_exception + HistoricalDataPoint data_response) \<times> 'w" where
  "get_historical_data ev bi isoformat svc query kw w =
     (let start_query_time = time_time ev w
      in case HistoryQueryParams_init (kw\<lparr> aggregation := Some AggMEAN \<rparr>) of
           Inl e \<Rightarrow> (Inl (translate ''Failed to retrieve historical data'' e), w)
         | Inr query_params \<Rightarrow>
             (case query_historical_data bi isoformat svc query query_params w of
                (Inl e, w') \<Rightarrow> (Inl (translate ''Failed to retrieve historical data'' e), w')
              | (Inr data_points, w') \<Rightarrow>
                  (Inr \<lparr> resp_data = data_points,
                         resp_total_count = int (length data_points),
                         resp_query_params = query_params,
                         resp_execution_time_ms = (time_time ev w' - start_query_time) * 1000 \<rparr>,
                   w')))"

definition get_aggregated_data ::
  "'w env \<Rightarrow> builtins \<Rightarrow> (datetime \<Rightarrow> string) \<Rightarrow> InfluxDBService \<Rightarrow> 'w store \<Rightarrow> HistoryQueryParams \<Rightarrow> 'w
     \<Rightarrow> (http_exception + AggregatedDataPoint data_response) \<times> 'w" where
  "get_aggregated_data ev bi isoformat svc query kw w =
     (let start_query_time = time_time ev w
      in case HistoryQueryParams_init kw of
           Inl e \<Rightarrow> (Inl (translate ''Failed to retrieve aggregated data'' e), w)
         | Inr query_params \<Rightarrow>
             (case query_aggregated_data bi isoformat svc query query_params w of
                (Inl e, w') \<Rightarrow> (Inl (translate ''Failed to retrieve aggregated data'' e), w')
              | (Inr aggregated_points, w') \<Rightarrow>
                  (Inr \<lparr> resp_data = aggregated_points,
                         resp_total_count = sum_list (map adp_count aggregated_points),
                         resp_query_params = query_params,
                         resp_execution_time_ms = (time_time ev w' - start_query_time) * 1000 \<rparr>,
                   w')))"

section \<open>Test data for the history queries\<close>

definition test_params :: HistoryQueryParams where
  "test_params =
     \<lparr> start_time = Aware 1705320000000000 0, end_time = Aware 1705320000000000 0,
       sensor_type = None, device_id = None,
       latitude_min = None, latitude_max = None, longitude_min = None, longitude_max = None,
       aggregation = Some AggMEAN \<rparr>"

definition failing_store :: "wire_world store" where
  "failing_store q organisation w = (Inl (PyException ''store touched''), w\<lparr> ww_now := ww_now w + 1 \<rparr>)"

text \<open>
  A request whose \<^verbatim>\<open>start_time\<close> was written with a zone
  (\<^verbatim>\<open>2024-01-15T12:00:00Z\<close>) and whose \<^verbatim>\<open>end_time\<close>, an hour earlier, without
  (\<^verbatim>\<open>2024-01-15T11:00:00\<close>).
\<close>

definition mixed_params :: HistoryQueryParams where
  "mixed_params =
     \<lparr> start_time = Aware 1705320000000000 0, end_time = Naive 1705316400000000,
       sensor_type = None, device_id = None,
       latitude_min = None, latitude_max = None, longitude_min = None, longitude_max = None,
       aggregation = Some AggMEAN \<rparr>"

definition valid_params :: HistoryQueryParams where
  "valid_params =
     \<lparr> start_time = Naive 1705320000000000, end_time = Naive 1705323600000000,
       sensor_type = Some TEMPERATURE, device_id = Some 12345,
       latitude_min = Some 10, latitude_max = Some 20,
       longitude_min = Some (61 / 2), longitude_max = Some 45,
       aggregation = Some AggMEAN \<rparr>"

text \<open>The same period with no filter at all.\<close>

definition plain_params :: HistoryQueryParams where
  "plain_params =
     \<lparr> start_time = Naive 1705320000000000, end_time = Naive 1705323600000000,
       sensor_type = None, device_id = None,
       latitude_min = None, latitude_max = None, longitude_min = None, longitude_max = None,
       aggregation = Some AggMEAN \<rparr>"

definition test_store_service :: InfluxDBService where
  "test_store_service = \<lparr> bucket = ''iot-sensors'', org = ''o'' \<rparr>"

text \<open>
  A store for the aggregated queries: it counts the queries it is sent, answers one whose
  text holds a \<^verbatim>\<open>count()\<close> stage with one count row, for the temperature sensor of
  device 1, and any other with two aggregate rows, for that group and for the humidity
  sensor of device 2. Tag values are strings.
\<close>

definition aggregate_rows :: "FluxTable list" where
  "aggregate_rows =
     [[\<lparr> rec_table = PyInt 0,
          rec_values = [(''sensor_type'', PyStr ''temperature''), (''device_id'', PyStr ''1''),
                        (''_value'', PyFloat (43 / 2))] \<rparr>],
      [\<lparr> rec_table = PyInt 1,
          rec_values = [(''sensor_type'', PyStr ''humidity''), (''device_id'', PyStr ''2''),
                        (''_value'', PyFloat 40)] \<rparr>]]"

definition count_rows :: "FluxTable list" where
  "count_rows =
     [[\<lparr> rec_table = PyInt 0,
          rec_values = [(''sensor_type'', PyStr ''temperature''), (''device_id'', PyStr ''1''),
                        (''_value'', PyInt 7)] \<rparr>]]"

definition counting_store :: "nat store" where
  "counting_store q organisation n =
     (if contains ''|> count()'' q then Inr count_rows else Inr aggregate_rows, Suc n)"

definition store_builtins :: builtins where
  "store_builtins =
     test_builtins\<lparr> int_of_str :=
       (\<lambda>s. if s = ''1'' then Some 1 else if s = ''2'' then Some 2 else None) \<rparr>"

section \<open>Circuit breaker: properties\<close>

lemma call_rejected:
  assumes "state cb = OPEN" and "\<not> should_attempt_reset cb (clk w)"
  shows "call clk cb func w = (Inl circuit_open_error, cb, w)"
  using assms by (simp add: call_def)

lemma call_failure:
  assumes "state cb \<noteq> OPEN" and "func w = (Inl e, w')"
  shows "call clk cb func w = (Inl e, on_failure cb (clk w'), w')"
  using assms by (simp add: call_def)

lemma call_success:
  assumes "state cb \<noteq> OPEN" and "func w = (Inr v, w')"
  shows "call clk cb func w = (Inr v, on_success cb, w')"
  using assms by (simp add: call_def)

lemma call_half_open_failure:
  assumes "state cb = OPEN" and "should_attempt_reset cb (clk w)" and "func w = (Inl e, w')"
  shows "call clk cb func w = (Inl e, on_failure (cb\<lparr>state := HALF_OPEN\<rparr>) (clk w'), w')"
  using assms by (simp add: call_def)

lemma call_half_open_success:
  assumes "state cb = OPEN" and "should_attempt_reset cb (clk w)" and "func w = (Inr v, w')"
  shows "call clk cb func w = (Inr v, on_success (cb\<lparr>state := HALF_OPEN\<rparr>), w')"
  using assms by (simp add: call_def)

lemma breaker_after_Nil: "breaker_after clk cb [] = cb"
  by (simp add: breaker_after_def)

lemma breaker_after_Cons:
  "breaker_after clk cb ((func, w) # rest) = breaker_after clk (fst (snd (call clk cb func w))) rest"
  by (simp add: breaker_after_def Let_def)

lemma calls_append:
  "calls clk cb (xs @ ys) = calls clk cb xs @ calls clk (breaker_after clk cb xs) ys"
proof (induction xs arbitrary: cb)
  case Nil
  show ?case by (simp add: breaker_after_Nil)
next
  case (Cons x xs)
  obtain func w where x: "x = (func, w)" by (cases x)
  show ?case using Cons.IH by (simp add: x Let_def breaker_after_Cons)
qed

lemma length_calls: "length (calls clk cb cs) = length cs"
  by (induction cs arbitrary: cb) (auto simp: Let_def)

lemma breaker_after_append:
  "breaker_after clk cb (xs @ ys) = breaker_after clk (breaker_after clk cb xs) ys"
proof (induction xs arbitrary: cb)
  case Nil
  show ?case by (simp add: breaker_after_Nil)
next
  case (Cons x xs)
  obtain func w where x: "x = (func, w)" by (cases x)
  show ?case using Cons.IH by (simp add: x breaker_after_Cons)
qed

text \<open>Failures below the threshold keep a CLOSED breaker CLOSED.\<close>

lemma calls_failing_below_threshold:
  assumes "state cb = CLOSED"
    and "\<forall>(func, w) \<in> set cs. isl (fst (func w))"
    and "failure_count cb + int (length cs) < failure_threshold cb"
  shows "map (\<lambda>r. state (fst (snd r))) (calls clk cb cs) = replicate (length cs) CLOSED
       \<and> map (\<lambda>r. (fst r, snd (snd r))) (calls clk cb cs) = map (\<lambda>(func, w). func w) cs
       \<and> state (breaker_after clk cb cs) = CLOSED
       \<and> failure_count (breaker_after clk cb cs) = failure_count cb + int (length cs)
       \<and> failure_threshold (breaker_after clk cb cs) = failure_threshold cb
       \<and> recovery_timeout (breaker_after clk cb cs) = recovery_timeout cb"
  using assms
proof (induction cs arbitrary: cb)
  case Nil
  then show ?case by (simp add: breaker_after_Nil)
next
  case (Cons x cs)
  obtain func w where x: "x = (func, w)" by (cases x)
  from Cons.prems(2) x obtain e w' where f: "func w = (Inl e, w')"
    by (cases "func w"; cases "fst (func w)") auto
  let ?cb1 = "on_failure cb (clk w')"
  have c: "call clk cb func w = (Inl e, ?cb1, w')"
    using Cons.prems(1) f by (simp add: call_failure)
  have s1: "state ?cb1 = CLOSED" "failure_count ?cb1 = failure_count cb + 1"
    "failure_threshold ?cb1 = failure_threshold cb" "recovery_timeout ?cb1 = recovery_timeout cb"
    using Cons.prems(1,3) by (simp_all add: on_failure_def Let_def)
  have "\<forall>(func, w) \<in> set cs. isl (fst (func w))" using Cons.prems(2) by simp
  moreover have "failure_count ?cb1 + int (length cs) < failure_threshold ?cb1"
    using Cons.prems(3) s1 by simp
  ultimately have IH: "map (\<lambda>r. state (fst (snd r))) (calls clk ?cb1 cs) = replicate (length cs) CLOSED
       \<and> map (\<lambda>r. (fst r, snd (snd r))) (calls clk ?cb1 cs) = map (\<lambda>(func, w). func w) cs
       \<and> state (breaker_after clk ?cb1 cs) = CLOSED
       \<and> failure_count (breaker_after clk ?cb1 cs) = failure_count ?cb1 + int (length cs)
       \<and> failure_threshold (breaker_after clk ?cb1 cs) = failure_threshold ?cb1
       \<and> recovery_timeout (breaker_after clk ?cb1 cs) = recovery_timeout ?cb1"
    using Cons.IH [of ?cb1] s1(1) by blast
  show ?case using IH s1 c f by (simp add: x Let_def breaker_after_Cons)
qed

lemma transitions_closed_then_open:
  "transitions (replicate k CLOSED @ [OPEN]) = (if k = 0 then [] else [(CLOSED, OPEN)])"
proof (induction k)
  case 0
  show ?case by simp
next
  case (Suc k)
  show ?case
  proof (cases k)
    case 0
    then show ?thesis by simp
  next
    case (Suc j)
    with Suc.IH show ?thesis by simp
  qed
qed

text \<open>A run of rejected calls.\<close>

lemma calls_all_rejected:
  assumes "state cb = OPEN"
    and "\<forall>(func, w) \<in> set ds. \<not> should_attempt_reset cb (clk w)"
  shows "calls clk cb ds = map (\<lambda>(func, w). (Inl circuit_open_error, cb, w)) ds"
  using assms
proof (induction ds)
  case Nil
  show ?case by simp
next
  case (Cons x ds)
  obtain func w where x: "x = (func, w)" by (cases x)
  have "call clk cb func w = (Inl circuit_open_error, cb, w)"
    using Cons.prems x by (simp add: call_rejected)
  then show ?case using Cons x by (simp add: Let_def)
qed

text \<open>
  C10. A call rejected by an OPEN breaker (less than \<^verbatim>\<open>recovery_timeout\<close> elapsed since
  \<^verbatim>\<open>last_failure_time\<close>) returns the breaker exactly as it was: \<^verbatim>\<open>failure_count\<close>,
  \<^verbatim>\<open>last_failure_time\<close> and \<^verbatim>\<open>state\<close> are unchanged, so the rejection is not counted
  as a failure and the recovery deadline stays where it was.
\<close>

theorem rejected_call_leaves_breaker_unchanged:
  assumes "state cb = OPEN"
    and "last_failure_time cb = Some t"
    and "clk w - t < real_of_int (recovery_timeout cb)"
    and "call clk cb func w = (r, cb', w')"
  shows "r = Inl circuit_open_error \<and> cb' = cb
         \<and> failure_count cb' = failure_count cb
         \<and> last_failure_time cb' = last_failure_time cb
         \<and> state cb' = state cb
         \<and> should_attempt_reset cb' = should_attempt_reset cb"
proof -
  have "\<not> should_attempt_reset cb (clk w)"
    using assms(2,3) by (simp add: should_attempt_reset_def)
  with assms(1) have "call clk cb func w = (Inl circuit_open_error, cb, w)"
    by (rule call_rejected)
  with assms(4) show ?thesis by simp
qed

theorem rejected_call_leaves_breaker_unchanged_witness:
  "call tw_now
     \<lparr> failure_threshold = 5, recovery_timeout = 60, failure_count = 5,
       last_failure_time = Some 100, state = OPEN \<rparr>
     (failing_op 1) \<lparr> tw_now = 130, tw_invocations = 0 \<rparr>
   = (Inl circuit_open_error,
      \<lparr> failure_threshold = 5, recovery_timeout = 60, failure_count = 5,
        last_failure_time = Some 100, state = OPEN \<rparr>,
      \<lparr> tw_now = 130, tw_invocations = 0 \<rparr>)"
proof -
  let ?cb = "\<lparr> failure_threshold = 5, recovery_timeout = 60, failure_count = 5,
       last_failure_time = Some (100::real), state = OPEN \<rparr>"
  let ?w = "\<lparr> tw_now = 130, tw_invocations = 0 \<rparr>"
  obtain r cb' w' where c: "call tw_now ?cb (failing_op 1) ?w = (r, cb', w')"
    by (metis prod_cases3)
  have "r = Inl circuit_open_error \<and> cb' = ?cb"
    using rejected_call_leaves_breaker_unchanged [of ?cb 100 tw_now ?w "failing_op 1" r cb' w'] c
    by simp
  moreover have "w' = ?w"
    using c by (simp add: call_def should_attempt_reset_def)
  ultimately show ?thesis using c by simp
qed

lemma call_preserves_open_inv:
  assumes "state cb = OPEN \<longrightarrow> failure_threshold cb \<le> failure_count cb"
  shows "state (fst (snd (call clk cb func w))) = OPEN
           \<longrightarrow> failure_threshold (fst (snd (call clk cb func w)))
                 \<le> failure_count (fst (snd (call clk cb func w)))"
  using assms
  by (cases "func w"; cases "fst (func w)")
     (auto simp: call_def on_failure_def on_success_def Let_def split: if_splits)

lemma breaker_after_open_inv:
  assumes "state cb = OPEN \<longrightarrow> failure_threshold cb \<le> failure_count cb"
  shows "state (breaker_after clk cb cs) = OPEN
           \<longrightarrow> failure_threshold (breaker_after clk cb cs) \<le> failure_count (breaker_after clk cb cs)"
  using assms
proof (induction cs arbitrary: cb)
  case Nil
  then show ?case by (simp add: breaker_after_Nil)
next
  case (Cons x cs)
  obtain func w where x: "x = (func, w)" by (cases x)
  show ?case
    unfolding x breaker_after_Cons
    by (rule Cons.IH) (rule call_preserves_open_inv [OF Cons.prems])
qed

text \<open>
  C1. Take a fresh breaker with \<^verbatim>\<open>failure_threshold = N\<close> (\<open>N \<ge> 1\<close>), CLOSED with
  \<^verbatim>\<open>failure_count = 0\<close>, and feed it \<open>N\<close> calls whose operations all fail. Then the
  states after the calls are CLOSED \<open>N - 1\<close> times and then OPEN, so the run has exactly
  one state change, CLOSED to OPEN, on the \<open>N\<close>th failure; every one of the \<open>N\<close>
  operations was run (the outcome and world of each call are those of its operation); and
  every later call made while less than \<^verbatim>\<open>recovery_timeout\<close> has elapsed since that
  last failure is rejected with the breaker's own exception, leaving breaker and world as
  they were: the wrapped operation is not run.
\<close>

theorem breaker_opens_on_nth_failure:
  fixes N :: nat
  assumes "1 \<le> N"
    and "length cs = N"
    and "\<forall>(func, w) \<in> set cs. isl (fst (func w))"
  shows "map (\<lambda>r. state (fst (snd r))) (calls clk (CircuitBreaker_init (int N) T) cs)
           = replicate (N - 1) CLOSED @ [OPEN]
       \<and> transitions (CLOSED # map (\<lambda>r. state (fst (snd r)))
                                    (calls clk (CircuitBreaker_init (int N) T) cs))
           = [(CLOSED, OPEN)]
       \<and> map (\<lambda>r. (fst r, snd (snd r))) (calls clk (CircuitBreaker_init (int N) T) cs)
           = map (\<lambda>(func, w). func w) cs
       \<and> state (breaker_after clk (CircuitBreaker_init (int N) T) cs) = OPEN
       \<and> last_failure_time (breaker_after clk (CircuitBreaker_init (int N) T) cs)
           = Some (clk (snd (fst (last cs) (snd (last cs)))))
       \<and> (\<forall>ds. (\<forall>(func, w) \<in> set ds.
                    clk w - clk (snd (fst (last cs) (snd (last cs)))) < real_of_int T)
              \<longrightarrow> calls clk (breaker_after clk (CircuitBreaker_init (int N) T) cs) ds
                    = map (\<lambda>(func, w). (Inl circuit_open_error,
                             breaker_after clk (CircuitBreaker_init (int N) T) cs, w)) ds)"
proof -
  let ?init = "CircuitBreaker_init (int N) T"
  obtain pre x where cs: "cs = pre @ [x]" and lpre: "length pre = N - 1"
    using assms(1,2) by (cases cs rule: rev_cases) auto
  obtain func w where x: "x = (func, w)" by (cases x)
  obtain e w' where f: "func w = (Inl e, w')"
    using assms(3) cs x by (cases "func w"; cases "fst (func w)") auto
  have init: "state ?init = CLOSED" "failure_count ?init = 0" "failure_threshold ?init = int N"
    "recovery_timeout ?init = T"
    by (simp_all add: CircuitBreaker_init_def)
  have "\<forall>(func, w) \<in> set pre. isl (fst (func w))" using assms(3) cs by simp
  moreover have "failure_count ?init + int (length pre) < failure_threshold ?init"
    using init lpre assms(1) by simp
  ultimately have pre:
    "map (\<lambda>r. state (fst (snd r))) (calls clk ?init pre) = replicate (length pre) CLOSED"
    "map (\<lambda>r. (fst r, snd (snd r))) (calls clk ?init pre) = map (\<lambda>(func, w). func w) pre"
    "state (breaker_after clk ?init pre) = CLOSED"
    "failure_count (breaker_after clk ?init pre) = failure_count ?init + int (length pre)"
    "failure_threshold (breaker_after clk ?init pre) = failure_threshold ?init"
    "recovery_timeout (breaker_after clk ?init pre) = recovery_timeout ?init"
    using calls_failing_below_threshold [of ?init pre clk] init(1) by simp_all
  let ?mid = "breaker_after clk ?init pre"
  let ?fin = "on_failure ?mid (clk w')"
  have c: "call clk ?mid func w = (Inl e, ?fin, w')"
    using pre(3) f by (simp add: call_failure)
  have fin: "state ?fin = OPEN" "last_failure_time ?fin = Some (clk w')"
    "recovery_timeout ?fin = T"
    using pre(4,5,6) init lpre assms(1) by (simp_all add: on_failure_def Let_def)
  have after: "breaker_after clk ?init cs = ?fin"
    by (simp add: cs x breaker_after_append breaker_after_Cons breaker_after_Nil c)
  have tr: "calls clk ?init cs = calls clk ?init pre @ [(Inl e, ?fin, w')]"
    by (simp add: cs x calls_append c Let_def)
  have states: "map (\<lambda>r. state (fst (snd r))) (calls clk ?init cs) = replicate (N - 1) CLOSED @ [OPEN]"
    unfolding tr by (simp add: pre(1) lpre fin(1))
  have "CLOSED # replicate (N - 1) CLOSED @ [OPEN] = replicate N CLOSED @ [OPEN]"
    using assms(1) by (cases N) simp_all
  moreover have "transitions (replicate N CLOSED @ [OPEN]) = [(CLOSED, OPEN)]"
    using assms(1) by (simp only: transitions_closed_then_open) simp
  ultimately have trans: "transitions (CLOSED # map (\<lambda>r. state (fst (snd r))) (calls clk ?init cs))
      = [(CLOSED, OPEN)]"
    by (simp only: states)
  have outs: "map (\<lambda>r. (fst r, snd (snd r))) (calls clk ?init cs) = map (\<lambda>(func, w). func w) cs"
    unfolding tr by (simp add: pre(2) cs x f)
  have lastw: "snd (fst (last cs) (snd (last cs))) = w'"
    by (simp add: cs x f)
  have rej: "calls clk ?fin ds = map (\<lambda>(func, w). (Inl circuit_open_error, ?fin, w)) ds"
    if "\<forall>(func, w) \<in> set ds. clk w - clk w' < real_of_int T" for ds
  proof -
    from that have "\<forall>(func, w) \<in> set ds. \<not> should_attempt_reset ?fin (clk w)"
      using fin(2,3) by (auto simp: should_attempt_reset_def)
    then show ?thesis
      using fin(1) calls_all_rejected [of ?fin ds clk] by blast
  qed
  show ?thesis
    unfolding after lastw
  proof (intro conjI)
    show "map (\<lambda>r. state (fst (snd r))) (calls clk ?init cs) = replicate (N - 1) CLOSED @ [OPEN]"
      by (rule states)
    show "transitions (CLOSED # map (\<lambda>r. state (fst (snd r))) (calls clk ?init cs))
      = [(CLOSED, OPEN)]"
      by (rule trans)
    show "map (\<lambda>r. (fst r, snd (snd r))) (calls clk ?init cs) = map (\<lambda>(func, w). func w) cs"
      by (rule outs)
    show "state ?fin = OPEN" by (rule fin(1))
    show "last_failure_time ?fin = Some (clk w')" by (rule fin(2))
    show "\<forall>ds. (\<forall>(func, w) \<in> set ds. clk w - clk w' < real_of_int T)
              \<longrightarrow> calls clk ?fin ds = map (\<lambda>(func, w). (Inl circuit_open_error, ?fin, w)) ds"
      using rej by blast
  qed
qed

theorem breaker_opens_on_nth_failure_witness:
  "map (\<lambda>r. state (fst (snd r)))
     (calls tw_now (CircuitBreaker_init (int 2) 60)
        [(failing_op 1, \<lparr> tw_now = 10, tw_invocations = 0 \<rparr>),
         (failing_op 1, \<lparr> tw_now = 20, tw_invocations = 1 \<rparr>)])
     = [CLOSED, OPEN]
   \<and> calls tw_now
         (breaker_after tw_now (CircuitBreaker_init (int 2) 60)
            [(failing_op 1, \<lparr> tw_now = 10, tw_invocations = 0 \<rparr>),
             (failing_op 1, \<lparr> tw_now = 20, tw_invocations = 1 \<rparr>)])
         [(succeeding_op 1, \<lparr> tw_now = 50, tw_invocations = 2 \<rparr>)]
     = [(Inl circuit_open_error,
         breaker_after tw_now (CircuitBreaker_init (int 2) 60)
            [(failing_op 1, \<lparr> tw_now = 10, tw_invocations = 0 \<rparr>),
             (failing_op 1, \<lparr> tw_now = 20, tw_invocations = 1 \<rparr>)],
         \<lparr> tw_now = 50, tw_invocations = 2 \<rparr>)]"
proof -
  let ?cs = "[(failing_op 1, \<lparr> tw_now = 10, tw_invocations = 0 \<rparr>),
              (failing_op 1, \<lparr> tw_now = 20, tw_invocations = 1 \<rparr>)]"
  let ?ds = "[(succeeding_op 1, \<lparr> tw_now = 50, tw_invocations = 2 \<rparr>)]"
  have h1: "1 \<le> (2::nat)" by simp
  have h2: "length ?cs = 2" by simp
  have h3: "\<forall>(func, w) \<in> set ?cs. isl (fst (func w))" by (simp add: failing_op_def)
  have h4: "\<forall>(func, w) \<in> set ?ds.
              tw_now w - tw_now (snd (fst (last ?cs) (snd (last ?cs)))) < real_of_int 60"
    by (simp add: failing_op_def)
  note t = breaker_opens_on_nth_failure [OF h1 h2 h3, of tw_now 60]
  from t have a: "map (\<lambda>r. state (fst (snd r))) (calls tw_now (CircuitBreaker_init (int 2) 60) ?cs)
      = replicate (2 - 1) CLOSED @ [OPEN]"
    by blast
  from t h4 have b: "calls tw_now (breaker_after tw_now (CircuitBreaker_init (int 2) 60) ?cs) ?ds
      = map (\<lambda>(func, w). (Inl circuit_open_error,
               breaker_after tw_now (CircuitBreaker_init (int 2) 60) ?cs, w)) ?ds"
    by blast
  have c: "replicate (2 - 1) CLOSED @ [OPEN] = [CLOSED, OPEN]" by simp
  show ?thesis using a b c by simp
qed

text \<open>
  C2. Take a breaker that the program can produce (the constructor followed by any
  history of calls) and that is OPEN with \<^verbatim>\<open>recovery_timeout\<close> elapsed since its last
  failure, so that the next call moves it to HALF_OPEN and runs the operation. If the
  operation succeeds the breaker ends CLOSED with \<^verbatim>\<open>failure_count = 0\<close>; if it fails
  the breaker ends OPEN with \<^verbatim>\<open>failure_count\<close> incremented and
  \<^verbatim>\<open>last_failure_time\<close> set to the clock reading after the failure.
\<close>

theorem half_open_outcome:
  assumes "cb = breaker_after clk (CircuitBreaker_init threshold timeout) history"
    and "state cb = OPEN"
    and "last_failure_time cb = Some t"
    and "clk w - t \<ge> real_of_int (recovery_timeout cb)"
    and "call clk cb func w = (r, cb', w')"
  shows "(\<forall>result w1. func w = (Inr result, w1) \<longrightarrow>
            r = Inr result \<and> w' = w1 \<and> state cb' = CLOSED \<and> failure_count cb' = 0)
       \<and> (\<forall>e w1. func w = (Inl e, w1) \<longrightarrow>
            r = Inl e \<and> w' = w1 \<and> state cb' = OPEN
            \<and> failure_count cb' = failure_count cb + 1
            \<and> last_failure_time cb' = Some (clk w1))"
proof -
  have "state (CircuitBreaker_init threshold timeout) = OPEN \<longrightarrow>
        failure_threshold (CircuitBreaker_init threshold timeout)
          \<le> failure_count (CircuitBreaker_init threshold timeout)"
    by (simp add: CircuitBreaker_init_def)
  then have inv: "failure_threshold cb \<le> failure_count cb"
    using breaker_after_open_inv [of "CircuitBreaker_init threshold timeout" clk history] assms(1,2)
    by simp
  have reset: "should_attempt_reset cb (clk w)"
    using assms(3,4) by (simp add: should_attempt_reset_def)
  show ?thesis
  proof (intro conjI allI impI)
    fix result w1 assume f: "func w = (Inr result, w1)"
    have "call clk cb func w = (Inr result, on_success (cb\<lparr>state := HALF_OPEN\<rparr>), w1)"
      using assms(2) reset f by (rule call_half_open_success)
    with assms(5) have eq: "r = Inr result" "w' = w1" "cb' = on_success (cb\<lparr>state := HALF_OPEN\<rparr>)"
      by auto
    show "r = Inr result" by (rule eq(1))
    show "w' = w1" by (rule eq(2))
    show "state cb' = CLOSED" by (simp add: eq(3) on_success_def)
    show "failure_count cb' = 0" by (simp add: eq(3) on_success_def)
  next
    fix e w1 assume f: "func w = (Inl e, w1)"
    have "call clk cb func w = (Inl e, on_failure (cb\<lparr>state := HALF_OPEN\<rparr>) (clk w1), w1)"
      using assms(2) reset f by (rule call_half_open_failure)
    with assms(5) have eq: "r = Inl e" "w' = w1"
      "cb' = on_failure (cb\<lparr>state := HALF_OPEN\<rparr>) (clk w1)"
      by auto
    show "r = Inl e" by (rule eq(1))
    show "w' = w1" by (rule eq(2))
    show "state cb' = OPEN" using inv by (simp add: eq(3) on_failure_def Let_def)
    show "failure_count cb' = failure_count cb + 1" by (simp add: eq(3) on_failure_def Let_def)
    show "last_failure_time cb' = Some (clk w1)" by (simp add: eq(3) on_failure_def Let_def)
  qed
qed

theorem half_open_outcome_witness:
  "state (fst (snd (call tw_now
       (breaker_after tw_now (CircuitBreaker_init 1 60)
          [(failing_op 0, \<lparr> tw_now = 100, tw_invocations = 0 \<rparr>)])
       (succeeding_op 1) \<lparr> tw_now = 200, tw_invocations = 1 \<rparr>))) = CLOSED
   \<and> failure_count (fst (snd (call tw_now
       (breaker_after tw_now (CircuitBreaker_init 1 60)
          [(failing_op 0, \<lparr> tw_now = 100, tw_invocations = 0 \<rparr>)])
       (succeeding_op 1) \<lparr> tw_now = 200, tw_invocations = 1 \<rparr>))) = 0
   \<and> state (fst (snd (call tw_now
       (breaker_after tw_now (CircuitBreaker_init 1 60)
          [(failing_op 0, \<lparr> tw_now = 100, tw_invocations = 0 \<rparr>)])
       (failing_op 1) \<lparr> tw_now = 200, tw_invocations = 1 \<rparr>))) = OPEN
   \<and> failure_count (fst (snd (call tw_now
       (breaker_after tw_now (CircuitBreaker_init 1 60)
          [(failing_op 0, \<lparr> tw_now = 100, tw_invocations = 0 \<rparr>)])
       (failing_op 1) \<lparr> tw_now = 200, tw_invocations = 1 \<rparr>))) = 2
   \<and> last_failure_time (fst (snd (call tw_now
       (breaker_after tw_now (CircuitBreaker_init 1 60)
          [(failing_op 0, \<lparr> tw_now = 100, tw_invocations = 0 \<rparr>)])
       (failing_op 1) \<lparr> tw_now = 200, tw_invocations = 1 \<rparr>))) = Some 201"
proof -
  let ?hist = "[(failing_op 0, \<lparr> tw_now = 100, tw_invocations = 0 \<rparr>)]"
  let ?cb = "breaker_after tw_now (CircuitBreaker_init 1 60) ?hist"
  let ?w = "\<lparr> tw_now = 200, tw_invocations = 1 \<rparr>"
  have cb: "?cb = \<lparr> failure_threshold = 1, recovery_timeout = 60, failure_count = 1,
                    last_failure_time = Some 100, state = OPEN \<rparr>"
    by (simp add: breaker_after_def call_def CircuitBreaker_init_def failing_op_def
                  on_failure_def Let_def)
  have h2: "state ?cb = OPEN" by (simp add: cb)
  have h3: "last_failure_time ?cb = Some 100" by (simp add: cb)
  have h4: "tw_now ?w - 100 \<ge> real_of_int (recovery_timeout ?cb)" by (simp add: cb)
  obtain r1 cb1 w1 where c1: "call tw_now ?cb (succeeding_op 1) ?w = (r1, cb1, w1)"
    by (metis prod_cases3)
  obtain r2 cb2 w2 where c2: "call tw_now ?cb (failing_op 1) ?w = (r2, cb2, w2)"
    by (metis prod_cases3)
  have s: "succeeding_op 1 ?w = (Inr ''id-1'', \<lparr> tw_now = 201, tw_invocations = 2 \<rparr>)"
    by (simp add: succeeding_op_def)
  have f: "failing_op 1 ?w = (Inl ServiceUnavailable, \<lparr> tw_now = 201, tw_invocations = 2 \<rparr>)"
    by (simp add: failing_op_def)
  have "state cb1 = CLOSED \<and> failure_count cb1 = 0"
    using half_open_outcome [OF refl h2 h3 h4 c1] s by blast
  moreover have "state cb2 = OPEN \<and> failure_count cb2 = failure_count ?cb + 1
      \<and> last_failure_time cb2 = Some (tw_now \<lparr> tw_now = 201, tw_invocations = 2 \<rparr>)"
    using half_open_outcome [OF refl h2 h3 h4 c2] f by blast
  moreover have "failure_count ?cb + 1 = 2" by (simp add: cb)
  ultimately show ?thesis unfolding c1 c2 by simp
qed

section \<open>Mock transport: properties\<close>



lemma publish_below_cap:
  assumes "int (length (buffer c (topic_name_of path))) < max_messages_per_topic c"
  shows "publish c path payload now stamp =
           (Inr (''mock-msg-'' @ str_int (trunc now) @ ''-'' @ str_int (message_counter c + 1)),
            c\<lparr> message_counter := message_counter c + 1,
               published_messages := (published_messages c)(topic_name_of path \<mapsto>
                 buffer c (topic_name_of path) @
                 [\<lparr> message_id = ''mock-msg-'' @ str_int (trunc now) @ ''-'' @ str_int (message_counter c + 1),
                    topic = topic_name_of path, data = payload, timestamp = stamp,
                    attributes = [] \<rparr>]) \<rparr>)"
  using assms by (simp add: publish_def Let_def buffer_def)








section \<open>Retry policy: properties\<close>

lemma retry_call_success:
  assumes "fn w = (Inr v, w')"
  shows "retry_call n wait retry sleep fn k w = (Inr v, k, w')"
  using assms by (subst retry_call.simps) simp

lemma retry_call_permanent:
  assumes "fn w = (Inl e, w')" and "\<not> retry e"
  shows "retry_call n wait retry sleep fn k w = (Inl e, k, w')"
  using assms by (subst retry_call.simps) simp

lemma retry_call_exhausted:
  assumes "fn w = (Inl e, w')" and "retry e" and "n \<le> k"
  shows "retry_call n wait retry sleep fn k w = (Inl (RetryError e), k, w')"
  using assms by (subst retry_call.simps) (simp add: stop_after_attempt_def)

lemma retry_call_again:
  assumes "fn w = (Inl e, w')" and "retry e" and "k < n"
  shows "retry_call n wait retry sleep fn k w
           = retry_call n wait retry sleep fn (Suc k) (sleep (wait k) w')"
  using assms by (subst retry_call.simps) (simp add: stop_after_attempt_def)

lemma recording_failure:
  "recording_transport always_unavailable path m w
     = (Inl ServiceUnavailable, w\<lparr> ww_sent := ww_sent w @ [(path, m)] \<rparr>)"
  by (simp add: recording_transport_def always_unavailable_def)

text \<open>
  C3, as the code has it. For every run of the retrying \<^verbatim>\<open>_publish_message\<close> on the
  real client: if the first, second and third attempt each raise one of the declared
  transient errors, the publish is attempted exactly three times (sleeping 1 and then 2
  seconds in between) and the caller gets \<^verbatim>\<open>RetryError\<close> wrapping the third attempt's
  error; if the first, second or third attempt raises an error outside the list (the
  earlier ones having raised transient errors), that error itself reaches the caller at
  once, after exactly that many attempts.
\<close>

theorem publish_message_retry_policy:
  "(\<forall>e1 w1 e2 w2 e3 w3.
       client_publish path m w = (Inl e1, w1) \<and> e1 \<in> set transient_errors
     \<and> client_publish path m (time_sleep ev 1 w1) = (Inl e2, w2) \<and> e2 \<in> set transient_errors
     \<and> client_publish path m (time_sleep ev 2 w2) = (Inl e3, w3) \<and> e3 \<in> set transient_errors
     \<longrightarrow> publish_message_attempts ev False client_publish path m w
           = (Inl (RetryError e3), 3, w3))
   \<and> (\<forall>e w1.
       client_publish path m w = (Inl e, w1) \<and> e \<notin> set transient_errors
     \<longrightarrow> publish_message_attempts ev False client_publish path m w = (Inl e, 1, w1))
   \<and> (\<forall>e1 w1 e w2.
       client_publish path m w = (Inl e1, w1) \<and> e1 \<in> set transient_errors
     \<and> client_publish path m (time_sleep ev 1 w1) = (Inl e, w2) \<and> e \<notin> set transient_errors
     \<longrightarrow> publish_message_attempts ev False client_publish path m w = (Inl e, 2, w2))
   \<and> (\<forall>e1 w1 e2 w2 e w3.
       client_publish path m w = (Inl e1, w1) \<and> e1 \<in> set transient_errors
     \<and> client_publish path m (time_sleep ev 1 w1) = (Inl e2, w2) \<and> e2 \<in> set transient_errors
     \<and> client_publish path m (time_sleep ev 2 w2) = (Inl e, w3) \<and> e \<notin> set transient_errors
     \<longrightarrow> publish_message_attempts ev False client_publish path m w = (Inl e, 3, w3))"
proof -
  let ?fn = "publish_message_body False client_publish path m"
  let ?retry = "retry_if_exception_type transient_errors"
  let ?run = "retry_call 3 (wait_exponential 1 1 10) ?retry (time_sleep ev) ?fn"
  have body: "?fn w' = client_publish path m w'" for w'
    by (simp add: publish_message_body_def)
  have step: "?run k w0 = ?run k' (time_sleep ev d w1)"
    if "client_publish path m w0 = (Inl e, w1)" "e \<in> set transient_errors" "k < 3"
       "k' = Suc k" "d = wait_exponential 1 1 10 k" for k k' d w0 e w1
    unfolding that(4,5) using that(1,2,3)
    by (intro retry_call_again [where e = e]) (simp_all add: body retry_if_exception_type_def)
  have stop: "?run k w0 = (Inl e, k, w1)"
    if "client_publish path m w0 = (Inl e, w1)" "e \<notin> set transient_errors" for k w0 e w1
    using that by (intro retry_call_permanent) (simp_all add: body retry_if_exception_type_def)
  have giveup: "?run 3 w0 = (Inl (RetryError e), 3, w1)"
    if "client_publish path m w0 = (Inl e, w1)" "e \<in> set transient_errors" for w0 e w1
    using that by (intro retry_call_exhausted) (simp_all add: body retry_if_exception_type_def)
  have s1: "?run 1 w0 = ?run 2 (time_sleep ev 1 w1)"
    if "client_publish path m w0 = (Inl e, w1)" "e \<in> set transient_errors" for w0 e w1
    by (rule step [OF that]) (simp_all add: wait_exponential_def)
  have s2: "?run 2 w0 = ?run 3 (time_sleep ev 2 w1)"
    if "client_publish path m w0 = (Inl e, w1)" "e \<in> set transient_errors" for w0 e w1
    by (rule step [OF that]) (simp_all add: wait_exponential_def)
  show ?thesis
    unfolding publish_message_attempts_def
  proof (intro conjI allI impI)
    fix e1 w1 e2 w2 e3 w3
    assume a: "client_publish path m w = (Inl e1, w1) \<and> e1 \<in> set transient_errors
     \<and> client_publish path m (time_sleep ev 1 w1) = (Inl e2, w2) \<and> e2 \<in> set transient_errors
     \<and> client_publish path m (time_sleep ev 2 w2) = (Inl e3, w3) \<and> e3 \<in> set transient_errors"
    have "?run 1 w = ?run 2 (time_sleep ev 1 w1)" using a s1 by blast
    also have "\<dots> = ?run 3 (time_sleep ev 2 w2)" using a s2 by blast
    also have "\<dots> = (Inl (RetryError e3), 3, w3)" using a giveup by blast
    finally show "?run 1 w = (Inl (RetryError e3), 3, w3)" .
  next
    fix e w1
    assume "client_publish path m w = (Inl e, w1) \<and> e \<notin> set transient_errors"
    then show "?run 1 w = (Inl e, 1, w1)" using stop by blast
  next
    fix e1 w1 e w2
    assume a: "client_publish path m w = (Inl e1, w1) \<and> e1 \<in> set transient_errors
     \<and> client_publish path m (time_sleep ev 1 w1) = (Inl e, w2) \<and> e \<notin> set transient_errors"
    have "?run 1 w = ?run 2 (time_sleep ev 1 w1)" using a s1 by blast
    also have "\<dots> = (Inl e, 2, w2)" using a stop by blast
    finally show "?run 1 w = (Inl e, 2, w2)" .
  next
    fix e1 w1 e2 w2 e w3
    assume a: "client_publish path m w = (Inl e1, w1) \<and> e1 \<in> set transient_errors
     \<and> client_publish path m (time_sleep ev 1 w1) = (Inl e2, w2) \<and> e2 \<in> set transient_errors
     \<and> client_publish path m (time_sleep ev 2 w2) = (Inl e, w3) \<and> e \<notin> set transient_errors"
    have "?run 1 w = ?run 2 (time_sleep ev 1 w1)" using a s1 by blast
    also have "\<dots> = ?run 3 (time_sleep ev 2 w2)" using a s2 by blast
    also have "\<dots> = (Inl e, 3, w3)" using a stop by blast
    finally show "?run 1 w = (Inl e, 3, w3)" .
  qed
qed

theorem publish_message_retry_policy_witness:
  "publish_message_attempts wire_env False (recording_transport always_unavailable)
     ''projects/proj/topics/sensor-temperature'' [] \<lparr> ww_now = 0, ww_sent = [] \<rparr>
   = (Inl (RetryError ServiceUnavailable), 3,
      \<lparr> ww_now = 3,
        ww_sent = [(''projects/proj/topics/sensor-temperature'', []),
                   (''projects/proj/topics/sensor-temperature'', []),
                   (''projects/proj/topics/sensor-temperature'', [])] \<rparr>)"
proof -
  let ?p = "''projects/proj/topics/sensor-temperature''"
  let ?t = "recording_transport always_unavailable"
  let ?w0 = "\<lparr> ww_now = 0, ww_sent = [] \<rparr>"
  let ?w1 = "\<lparr> ww_now = 0, ww_sent = [(?p, [])] \<rparr>"
  let ?w2 = "\<lparr> ww_now = 1, ww_sent = [(?p, []), (?p, [])] \<rparr>"
  let ?w3 = "\<lparr> ww_now = 3, ww_sent = [(?p, []), (?p, []), (?p, [])] \<rparr>"
  have a1: "?t ?p [] ?w0 = (Inl ServiceUnavailable, ?w1)"
    by (simp add: recording_failure)
  have a2: "?t ?p [] (time_sleep wire_env 1 ?w1) = (Inl ServiceUnavailable, ?w2)"
    by (simp add: recording_failure wire_env_def)
  have a3: "?t ?p [] (time_sleep wire_env 2 ?w2) = (Inl ServiceUnavailable, ?w3)"
    by (simp add: recording_failure wire_env_def)
  have tr: "ServiceUnavailable \<in> set transient_errors"
    by (simp add: transient_errors_def)
  show ?thesis
    using publish_message_retry_policy [of ?t ?p "[]" ?w0 wire_env] a1 a2 a3 tr by blast
qed

text \<open>
  C3, as stated, fails: when all three attempts raise \<^verbatim>\<open>ServiceUnavailable\<close>, what
  reaches the caller after the third attempt is not \<^verbatim>\<open>ServiceUnavailable\<close> but a
  \<^verbatim>\<open>RetryError\<close> that wraps it.
\<close>

theorem publish_message_last_error_counterexample:
  "fst (publish_message_attempts wire_env False (recording_transport always_unavailable)
          ''projects/proj/topics/sensor-temperature'' [] \<lparr> ww_now = 0, ww_sent = [] \<rparr>)
     = Inl (RetryError ServiceUnavailable)
   \<and> fst (publish_message_attempts wire_env False (recording_transport always_unavailable)
          ''projects/proj/topics/sensor-temperature'' [] \<lparr> ww_now = 0, ww_sent = [] \<rparr>)
     \<noteq> Inl ServiceUnavailable
   \<and> fst (snd (publish_message_attempts wire_env False (recording_transport always_unavailable)
          ''projects/proj/topics/sensor-temperature'' [] \<lparr> ww_now = 0, ww_sent = [] \<rparr>)) = 3
   \<and> always_unavailable 0 = Inl ServiceUnavailable
   \<and> always_unavailable 1 = Inl ServiceUnavailable
   \<and> always_unavailable 2 = Inl ServiceUnavailable"
proof -
  let ?p = "''projects/proj/topics/sensor-temperature''"
  let ?fn = "publish_message_body False (recording_transport always_unavailable) ?p []"
  let ?retry = "retry_if_exception_type transient_errors"
  let ?run = "retry_call 3 (wait_exponential 1 1 10) ?retry (time_sleep wire_env) ?fn"
  have fn: "?fn w = (Inl ServiceUnavailable, w\<lparr> ww_sent := ww_sent w @ [(?p, [])] \<rparr>)" for w
    by (simp add: publish_message_body_def recording_failure)
  have r: "?retry ServiceUnavailable"
    by (simp add: retry_if_exception_type_def transient_errors_def)
  have "?run 1 w = ?run (Suc 1) (time_sleep wire_env (wait_exponential 1 1 10 1)
                        (w\<lparr> ww_sent := ww_sent w @ [(?p, [])] \<rparr>))" for w
    using fn [of w] r by (intro retry_call_again) simp_all
  moreover have "?run (Suc 1) w = ?run (Suc (Suc 1)) (time_sleep wire_env (wait_exponential 1 1 10 (Suc 1))
                        (w\<lparr> ww_sent := ww_sent w @ [(?p, [])] \<rparr>))" for w
    using fn [of w] r by (intro retry_call_again) simp_all
  moreover have "?run (Suc (Suc 1)) w
      = (Inl (RetryError ServiceUnavailable), Suc (Suc 1), w\<lparr> ww_sent := ww_sent w @ [(?p, [])] \<rparr>)" for w
    using fn [of w] r by (intro retry_call_exhausted) simp_all
  ultimately have "fst (?run 1 \<lparr> ww_now = 0, ww_sent = [] \<rparr>) = Inl (RetryError ServiceUnavailable)
      \<and> fst (snd (?run 1 \<lparr> ww_now = 0, ww_sent = [] \<rparr>)) = 3"
    by simp
  then show ?thesis
    by (simp add: publish_message_attempts_def always_unavailable_def)
qed

section \<open>Publish pipeline: properties\<close>

lemma py_float_number: "py_float bi (number_val n) = Inr (to_float bi n)"
  by (cases n) (simp_all add: py_float_def)

lemma transform_sensor_dict:
  "transform_data_for_avro_schema bi now_iso (sensor_dict isoformat sd)
     = Inr [(''device_id'', PyInt (sd_device_id sd)),
            (''sensor_type'', PyStr (SensorType_value (sd_sensor_type sd))),
            (''value'', PyFloat (to_float bi (sd_value sd))),
            (''latitude'', PyFloat (to_float bi (sd_latitude sd))),
            (''longitude'', PyFloat (to_float bi (sd_longitude sd))),
            (''timestamp'', PyStr (isoformat (sd_timestamp sd)))]"
  by (simp add: transform_data_for_avro_schema_def sensor_dict_def dict_get_def
                py_float_number py_int_def)

lemma json_dumps_transformed:
  "json_dumps bi [(''device_id'', PyInt (sd_device_id sd)),
            (''sensor_type'', PyStr (SensorType_value (sd_sensor_type sd))),
            (''value'', PyFloat (to_float bi (sd_value sd))),
            (''latitude'', PyFloat (to_float bi (sd_latitude sd))),
            (''longitude'', PyFloat (to_float bi (sd_longitude sd))),
            (''timestamp'', PyStr (isoformat (sd_timestamp sd)))]
     = wire_schema bi isoformat sd"
  by (simp add: json_dumps_def json_value_def wire_schema_def)

lemma json_dumps_sensor_dict:
  "json_dumps bi (sensor_dict isoformat sd)
     = [(''device_id'', JInt (sd_device_id sd)),
        (''sensor_type'', JStr (SensorType_value (sd_sensor_type sd))),
        (''value'', json_value bi (number_val (sd_value sd))),
        (''latitude'', json_value bi (number_val (sd_latitude sd))),
        (''longitude'', json_value bi (number_val (sd_longitude sd))),
        (''timestamp'', JStr (isoformat (sd_timestamp sd)))]"
  by (simp add: json_dumps_def json_value_def sensor_dict_def)

lemma test_topic_real:
  "get_topic_path (test_service False) ''temperature'' = Inr ''projects/proj/topics/sensor-temperature''"
  by (simp add: get_topic_path_def test_service_def topic_path_def)

lemma test_topic_mock:
  "mock_get_topic_path (mock_service (test_service True)) ''temperature''
     = Inr ''projects/proj/topics/sensor-temperature''"
  by (simp add: mock_get_topic_path_def test_service_def topic_path_def)

lemma test_topic_name: "topic_name_of ''projects/proj/topics/sensor-temperature'' = ''sensor-temperature''"
  by (simp add: topic_name_of_def)

lemma test_wire_schema:
  "wire_schema test_builtins test_isoformat test_reading
     = [(''device_id'', JInt 12345), (''sensor_type'', JStr ''temperature''),
        (''value'', JFloat (47 / 2)),
          (''latitude'', JFloat (3602879701896397 / 36028797018963968)),
        (''longitude'', JFloat (245 / 2)),
        (''timestamp'', JStr ''2024-01-15T11:59:00+00:00'')]"
  by (simp add: wire_schema_def test_reading_def test_isoformat_def test_builtins_def)

lemma str_int_0: "str_int 0 = ''0''"
  by (simp add: str_int_def str_nat.simps digit_char_def)

lemma str_int_1: "str_int 1 = ''1''"
  by (simp add: str_int_def str_nat.simps digit_char_def)

text \<open>
  C4, as the code has it. The transformation of the real path turns the dictionary of any
  reading into the wire schema: integer device id; value, latitude and longitude coerced
  to floating point (a float is kept, a \<^verbatim>\<open>Decimal\<close> is rounded by \<^verbatim>\<open>float\<close>);
  ISO-8601 timestamp string. With the real transport, a reading whose sensor
  type has a topic is published by running the retrying \<^verbatim>\<open>_publish_message\<close> under the
  circuit breaker with exactly that payload. With the mock transport the transformation is
  not applied: the payload handed to the mock client's \<^verbatim>\<open>publish\<close> is the reading's
  dictionary serialised as it is, so the device id is an integer and the timestamp the
  ISO-8601 string that the API layer wrote, while a value, latitude or longitude is a
  floating point number only if the reading held a float; a \<^verbatim>\<open>Decimal\<close> is written as
  the string \<^verbatim>\<open>str\<close> gives for it.
\<close>

theorem payload_handed_to_transport:
  "(\<exists>t. transform_data_for_avro_schema bi now_iso (sensor_dict isoformat sd) = Inr t
        \<and> json_dumps bi t = wire_schema bi isoformat sd)
   \<and> (\<forall>path. \<not> using_mock svc
          \<and> get_topic_path svc (SensorType_value (sd_sensor_type sd)) = Inr path
        \<longrightarrow> submit_sensor_data ev bi isoformat client_publish svc sd w
            = (case call (time_time ev) (circuit_breaker svc)
                      (publish_message ev False client_publish path (wire_schema bi isoformat sd)) w of
                 (r, cb', w') \<Rightarrow> (r, svc\<lparr> circuit_breaker := cb' \<rparr>, w')))
   \<and> (\<forall>path. using_mock svc
          \<and> mock_get_topic_path (mock_service svc) (SensorType_value (sd_sensor_type sd)) = Inr path
        \<longrightarrow> submit_sensor_data ev bi isoformat client_publish svc sd w
            = (case publish (client (mock_service svc)) path
                      [(''device_id'', JInt (sd_device_id sd)),
                       (''sensor_type'', JStr (SensorType_value (sd_sensor_type sd))),
                       (''value'', json_value bi (number_val (sd_value sd))),
                       (''latitude'', json_value bi (number_val (sd_latitude sd))),
                       (''longitude'', json_value bi (number_val (sd_longitude sd))),
                       (''timestamp'', JStr (isoformat (sd_timestamp sd)))]
                      (time_time ev w) (datetime_now ev w) of
                 (r, c') \<Rightarrow> (r, svc\<lparr> mock_service := (mock_service svc)\<lparr> client := c' \<rparr> \<rparr>, w)))
   \<and> (\<forall>r. json_value bi (number_val (Float r)) = JFloat r
          \<and> json_value bi (number_val (Decimal r)) = JStr (str_of bi (PyDecimal r)))"
proof (intro conjI allI impI)
  show "\<exists>t. transform_data_for_avro_schema bi now_iso (sensor_dict isoformat sd) = Inr t
        \<and> json_dumps bi t = wire_schema bi isoformat sd"
    using transform_sensor_dict json_dumps_transformed by blast
next
  fix path
  assume a: "\<not> using_mock svc
          \<and> get_topic_path svc (SensorType_value (sd_sensor_type sd)) = Inr path"
  show "submit_sensor_data ev bi isoformat client_publish svc sd w
            = (case call (time_time ev) (circuit_breaker svc)
                      (publish_message ev False client_publish path (wire_schema bi isoformat sd)) w of
                 (r, cb', w') \<Rightarrow> (r, svc\<lparr> circuit_breaker := cb' \<rparr>, w'))"
    using a
    by (simp add: submit_sensor_data_def publish_sensor_data_def transform_sensor_dict
                  json_dumps_transformed)
next
  fix path
  assume a: "using_mock svc
          \<and> mock_get_topic_path (mock_service svc) (SensorType_value (sd_sensor_type sd)) = Inr path"
  show "submit_sensor_data ev bi isoformat client_publish svc sd w
            = (case publish (client (mock_service svc)) path
                      [(''device_id'', JInt (sd_device_id sd)),
                       (''sensor_type'', JStr (SensorType_value (sd_sensor_type sd))),
                       (''value'', json_value bi (number_val (sd_value sd))),
                       (''latitude'', json_value bi (number_val (sd_latitude sd))),
                       (''longitude'', json_value bi (number_val (sd_longitude sd))),
                       (''timestamp'', JStr (isoformat (sd_timestamp sd)))]
                      (time_time ev w) (datetime_now ev w) of
                 (r, c') \<Rightarrow> (r, svc\<lparr> mock_service := (mock_service svc)\<lparr> client := c' \<rparr> \<rparr>, w))"
    using a
    by (simp add: submit_sensor_data_def publish_sensor_data_def mock_publish_sensor_data_def
                  MockCircuitBreaker_call_def mock_publish_message_def json_dumps_sensor_dict
             split: prod.splits)
next
  fix r
  show "json_value bi (number_val (Float r)) = JFloat r" by (simp add: json_value_def)
  show "json_value bi (number_val (Decimal r)) = JStr (str_of bi (PyDecimal r))"
    by (simp add: json_value_def)
qed

theorem payload_handed_to_transport_witness:
  "ww_sent (snd (snd (submit_sensor_data wire_env test_builtins test_isoformat
                        (recording_transport always_accepted) (test_service False) test_reading
                        \<lparr> ww_now = 0, ww_sent = [] \<rparr>)))
     = [(''projects/proj/topics/sensor-temperature'',
         [(''device_id'', JInt 12345), (''sensor_type'', JStr ''temperature''),
          (''value'', JFloat (47 / 2)),
          (''latitude'', JFloat (3602879701896397 / 36028797018963968)),
          (''longitude'', JFloat (245 / 2)),
          (''timestamp'', JStr ''2024-01-15T11:59:00+00:00'')])]
   \<and> fst (submit_sensor_data wire_env test_builtins test_isoformat
            (recording_transport always_accepted) (test_service True) test_reading
            \<lparr> ww_now = 0, ww_sent = [] \<rparr>)
     = fst (publish (MockPublisherClient_init ''proj'') ''projects/proj/topics/sensor-temperature''
              [(''device_id'', JInt 12345), (''sensor_type'', JStr ''temperature''),
               (''value'', JStr ''23.5''), (''latitude'', JStr ''0.1''),
               (''longitude'', JFloat (245 / 2)),
               (''timestamp'', JStr ''2024-01-15T11:59:00+00:00'')] 0 (Aware 0 0))"
proof -
  let ?w = "\<lparr> ww_now = 0, ww_sent = [] \<rparr>"
  let ?p = "''projects/proj/topics/sensor-temperature''"
  have st: "SensorType_value (sd_sensor_type test_reading) = ''temperature''"
    by (simp add: test_reading_def)
  have h_real: "\<not> using_mock (test_service False)
      \<and> get_topic_path (test_service False) (SensorType_value (sd_sensor_type test_reading)) = Inr ?p"
    unfolding st using test_topic_real by (simp add: test_service_def)
  have h_mock: "using_mock (test_service True)
      \<and> mock_get_topic_path (mock_service (test_service True))
            (SensorType_value (sd_sensor_type test_reading)) = Inr ?p"
    unfolding st using test_topic_mock by (simp add: test_service_def)
  note t_real = payload_handed_to_transport
    [of test_builtins "''now''" test_isoformat test_reading "test_service False" wire_env
        "recording_transport always_accepted" ?w,
     THEN conjunct2, THEN conjunct1, rule_format, OF h_real]
  note t_mock = payload_handed_to_transport
    [of test_builtins "''now''" test_isoformat test_reading "test_service True" wire_env
        "recording_transport always_accepted" ?w,
     THEN conjunct2, THEN conjunct2, THEN conjunct1, rule_format, OF h_mock]
  have real: "submit_sensor_data wire_env test_builtins test_isoformat
                 (recording_transport always_accepted) (test_service False) test_reading ?w
      = (case call (time_time wire_env) (circuit_breaker (test_service False))
                 (publish_message wire_env False (recording_transport always_accepted) ?p
                    (wire_schema test_builtins test_isoformat test_reading)) ?w of
           (r, cb', w') \<Rightarrow> (r, (test_service False)\<lparr> circuit_breaker := cb' \<rparr>, w'))"
    by (rule t_real)
  have attempt: "publish_message wire_env False (recording_transport always_accepted) ?p m ?w
      = (Inr ''1'', \<lparr> ww_now = 0, ww_sent = [(?p, m)] \<rparr>)" for m
    by (simp add: publish_message_def publish_message_attempts_def
          retry_call_success [where v = "''1''" and w' = "\<lparr> ww_now = 0, ww_sent = [(?p, m)] \<rparr>"]
          publish_message_body_def recording_transport_def always_accepted_def)
  have sent: "ww_sent (snd (snd (submit_sensor_data wire_env test_builtins test_isoformat
                        (recording_transport always_accepted) (test_service False) test_reading ?w)))
      = [(?p, wire_schema test_builtins test_isoformat test_reading)]"
  proof -
    have cb: "state (circuit_breaker (test_service False)) = CLOSED"
      by (simp add: test_service_def CircuitBreaker_init_def)
    have "call (time_time wire_env) (circuit_breaker (test_service False))
                 (publish_message wire_env False (recording_transport always_accepted) ?p
                    (wire_schema test_builtins test_isoformat test_reading)) ?w
          = (Inr ''1'', on_success (circuit_breaker (test_service False)),
             \<lparr> ww_now = 0, ww_sent = [(?p, wire_schema test_builtins test_isoformat test_reading)] \<rparr>)"
      by (rule call_success) (simp_all add: cb attempt)
    then show ?thesis unfolding real by (simp only: prod.case snd_conv) simp
  qed
  note mock = t_mock
  have vals: "json_value test_builtins (number_val (sd_value test_reading)) = JStr ''23.5''"
    "json_value test_builtins (number_val (sd_latitude test_reading)) = JStr ''0.1''"
    "json_value test_builtins (number_val (sd_longitude test_reading)) = JFloat (245 / 2)"
    "sd_device_id test_reading = 12345"
    "test_isoformat (sd_timestamp test_reading) = ''2024-01-15T11:59:00+00:00''"
    by (simp_all add: json_value_def test_reading_def test_builtins_def test_isoformat_def)
  have env0: "time_time wire_env ?w = 0" "datetime_now wire_env ?w = Aware 0 0"
    by (simp_all add: wire_env_def)
  have cl: "client (mock_service (test_service True)) = MockPublisherClient_init ''proj''"
    by (simp add: test_service_def)
  have part1: "ww_sent (snd (snd (submit_sensor_data wire_env test_builtins test_isoformat
                        (recording_transport always_accepted) (test_service False) test_reading ?w)))
     = [(?p,
         [(''device_id'', JInt 12345), (''sensor_type'', JStr ''temperature''),
          (''value'', JFloat (47 / 2)),
          (''latitude'', JFloat (3602879701896397 / 36028797018963968)),
          (''longitude'', JFloat (245 / 2)),
          (''timestamp'', JStr ''2024-01-15T11:59:00+00:00'')])]"
    unfolding sent test_wire_schema by (rule refl)
  have part2: "fst (submit_sensor_data wire_env test_builtins test_isoformat
            (recording_transport always_accepted) (test_service True) test_reading ?w)
     = fst (publish (MockPublisherClient_init ''proj'') ?p
              [(''device_id'', JInt 12345), (''sensor_type'', JStr ''temperature''),
               (''value'', JStr ''23.5''), (''latitude'', JStr ''0.1''),
               (''longitude'', JFloat (245 / 2)),
               (''timestamp'', JStr ''2024-01-15T11:59:00+00:00'')] 0 (Aware 0 0))"
    unfolding mock vals st env0 cl by (simp only: case_prod_beta fst_conv)
  show ?thesis using part1 part2 by (rule conjI)
qed

text \<open>
  C4, as stated, fails on the mock transport: a reading whose value is the
  \<^verbatim>\<open>Decimal\<close> 23.5 and whose latitude is the \<^verbatim>\<open>Decimal\<close> 0.1 is accepted, and
  the payload stored by the mock client carries them as the strings "23.5" and "0.1", not
  as floating point numbers, so it is not the wire schema of the reading.
\<close>

theorem mock_payload_not_normalized_counterexample:
  "using_mock (test_service True)
   \<and> fst (submit_sensor_data wire_env test_builtins test_isoformat
             (recording_transport always_accepted) (test_service True) test_reading
             \<lparr> ww_now = 0, ww_sent = [] \<rparr>) = Inr ''mock-msg-0-1''
   \<and> map data (buffer (client (mock_service (fst (snd
             (submit_sensor_data wire_env test_builtins test_isoformat
                (recording_transport always_accepted) (test_service True) test_reading
                \<lparr> ww_now = 0, ww_sent = [] \<rparr>))))) ''sensor-temperature'')
       = [[(''device_id'', JInt 12345), (''sensor_type'', JStr ''temperature''),
           (''value'', JStr ''23.5''), (''latitude'', JStr ''0.1''),
           (''longitude'', JFloat (245 / 2)),
           (''timestamp'', JStr ''2024-01-15T11:59:00+00:00'')]]
   \<and> [(''device_id'', JInt 12345), (''sensor_type'', JStr ''temperature''),
           (''value'', JStr ''23.5''), (''latitude'', JStr ''0.1''),
           (''longitude'', JFloat (245 / 2)),
           (''timestamp'', JStr ''2024-01-15T11:59:00+00:00'')]
       \<noteq> wire_schema test_builtins test_isoformat test_reading"
proof -
  let ?w = "\<lparr> ww_now = 0, ww_sent = [] \<rparr>"
  let ?p = "''projects/proj/topics/sensor-temperature''"
  let ?doc = "[(''device_id'', JInt 12345), (''sensor_type'', JStr ''temperature''),
           (''value'', JStr ''23.5''), (''latitude'', JStr ''0.1''),
           (''longitude'', JFloat (245 / 2)),
           (''timestamp'', JStr ''2024-01-15T11:59:00+00:00'')]"
  let ?c0 = "MockPublisherClient_init ''proj'' :: payload MockPublisherClient"
  have doc: "json_dumps test_builtins (sensor_dict test_isoformat test_reading) = ?doc"
    by (simp add: json_dumps_def json_value_def sensor_dict_def test_reading_def
                  test_builtins_def test_isoformat_def)
  have tn: "topic_name_of ?p = ''sensor-temperature''"
    by (simp add: topic_name_of_def)
  have below: "int (length (buffer ?c0 (topic_name_of ?p))) < max_messages_per_topic ?c0"
    by (simp add: MockPublisherClient_init_def buffer_def)
  have pub: "publish ?c0 ?p ?doc 0 (Aware 0 0)
      = (Inr ''mock-msg-0-1'',
         ?c0\<lparr> message_counter := 1,
              published_messages := (published_messages ?c0)(''sensor-temperature'' \<mapsto>
                [\<lparr> message_id = ''mock-msg-0-1'', topic = ''sensor-temperature'', data = ?doc,
                   timestamp = Aware 0 0, attributes = [] \<rparr>]) \<rparr>)"
    unfolding publish_below_cap [OF below] tn
    by (simp add: MockPublisherClient_init_def buffer_def trunc_def str_int_0 str_int_1)
  have run: "submit_sensor_data wire_env test_builtins test_isoformat
               (recording_transport always_accepted) (test_service True) test_reading ?w
      = (Inr ''mock-msg-0-1'',
         (test_service True)\<lparr> mock_service := (mock_service (test_service True))
            \<lparr> client := ?c0\<lparr> message_counter := 1,
              published_messages := (published_messages ?c0)(''sensor-temperature'' \<mapsto>
                [\<lparr> message_id = ''mock-msg-0-1'', topic = ''sensor-temperature'', data = ?doc,
                   timestamp = Aware 0 0, attributes = [] \<rparr>]) \<rparr> \<rparr> \<rparr>, ?w)"
  proof -
    have um: "using_mock (test_service True)" by (simp add: test_service_def)
    have st: "SensorType_value (sd_sensor_type test_reading) = ''temperature''"
      by (simp add: test_reading_def)
    have env0: "time_time wire_env ?w = 0" "datetime_now wire_env ?w = Aware 0 0"
      by (simp_all add: wire_env_def)
    have cl: "client (mock_service (test_service True)) = ?c0"
      by (simp add: test_service_def)
    show ?thesis
      by (simp add: submit_sensor_data_def publish_sensor_data_def mock_publish_sensor_data_def
            MockCircuitBreaker_call_def mock_publish_message_def um st test_topic_mock doc
            cl env0 pub)
  qed
  have um: "using_mock (test_service True)" by (simp add: test_service_def)
  have ne: "?doc \<noteq> wire_schema test_builtins test_isoformat test_reading"
    by (simp add: test_wire_schema)
  show ?thesis
    unfolding run using um ne by (simp add: buffer_def)
qed


section \<open>Validation of the history query parameters\<close>

lemma field_outcome_latitude:
  "\<exists>ms. field_outcome (validate_latitude_range d v) = Inr ms
        \<and> (\<forall>mn mx. d = Some (Some mn) \<and> v = Some mx \<and> mx \<le> mn \<longrightarrow> ms \<noteq> [])"
  by (auto simp: field_outcome_def validate_latitude_range_def split: option.splits)

lemma field_outcome_longitude:
  "\<exists>ms. field_outcome (validate_longitude_range d v) = Inr ms
        \<and> (\<forall>mn mx. d = Some (Some mn) \<and> v = Some mx \<and> mx \<le> mn \<longrightarrow> ms \<noteq> [])"
  by (auto simp: field_outcome_def validate_longitude_range_def split: option.splits)

lemma field_outcome_time:
  assumes "datetime_le v start = Inr not_after"
  shows "field_outcome (validate_time_range (Some start) v)
           = Inr (if not_after then [''end_time must be after start_time''] else [])"
  using assms by (simp add: field_outcome_def validate_time_range_def)

lemma field_outcome_time_mixed:
  assumes "datetime_le v start = Inl (TypeError m)"
  shows "field_outcome (validate_time_range (Some start) v) = Inl (TypeError m)"
  using assms by (simp add: field_outcome_def validate_time_range_def)

text \<open>
  The constructor with comparable datetimes: the list of messages it collects, written
  out.
\<close>

lemma validation_errors_comparable:
  assumes "datetime_le (end_time kw) (start_time kw) = Inr not_after"
    and "field_outcome
             (validate_latitude_range
                (if in_bounds (- 90) 90 (latitude_min kw) then Some (latitude_min kw) else None)
                (latitude_max kw)) = Inr e_lat"
    and "field_outcome
             (validate_longitude_range
                (if in_bounds (- 180) 180 (longitude_min kw) then Some (longitude_min kw) else None)
                (longitude_max kw)) = Inr e_lon"
  shows "validation_errors kw =
             Inr ((if not_after then [''end_time must be after start_time''] else [])
                    @ (if positive (device_id kw) then []
                       else [''device_id: Input should be greater than 0''])
                    @ (if in_bounds (- 90) 90 (latitude_min kw) then []
                       else [''latitude_min: out of range''])
                    @ (if in_bounds (- 90) 90 (latitude_max kw) then e_lat
                       else [''latitude_max: out of range''])
                    @ (if in_bounds (- 180) 180 (longitude_min kw) then []
                       else [''longitude_min: out of range''])
                    @ (if in_bounds (- 180) 180 (longitude_max kw) then e_lon
                       else [''longitude_max: out of range'']))"
  unfolding validation_errors_def field_outcome_time [OF assms(1)] Let_def assms(2,3)
  by simp

lemma validation_errors_aggregation:
  "validation_errors (kw\<lparr> aggregation := a \<rparr>) = validation_errors kw"
proof -
  have s: "start_time (kw\<lparr> aggregation := a \<rparr>) = start_time kw"
    "end_time (kw\<lparr> aggregation := a \<rparr>) = end_time kw"
    "device_id (kw\<lparr> aggregation := a \<rparr>) = device_id kw"
    "latitude_min (kw\<lparr> aggregation := a \<rparr>) = latitude_min kw"
    "latitude_max (kw\<lparr> aggregation := a \<rparr>) = latitude_max kw"
    "longitude_min (kw\<lparr> aggregation := a \<rparr>) = longitude_min kw"
    "longitude_max (kw\<lparr> aggregation := a \<rparr>) = longitude_max kw"
    by simp_all
  show ?thesis unfolding validation_errors_def s by (rule refl)
qed

lemma init_fails_any_aggregation:
  assumes "HistoryQueryParams_init kw = Inl e"
  shows "HistoryQueryParams_init (kw\<lparr> aggregation := a \<rparr>) = Inl e"
  using assms
  by (cases "validation_errors kw")
     (simp_all add: HistoryQueryParams_init_def validation_errors_aggregation split: if_splits)

lemma translate_validation:
  "translate what (ValidationError errs)
     = HTTPException 422 ''Query validation failed: '' (Some (ValidationError errs))"
  by (simp add: translate_def is_ValueError_def)

lemma translate_type_error:
  "translate what (TypeError m) = HTTPException 500 what None"
  by (simp add: translate_def is_ValueError_def)

text \<open>
  Where the two datetimes can be compared (both naive or both aware), the violations are
  rejected as the specification says: a \<^verbatim>\<open>ValidationError\<close>, status 422 from both
  handlers, in the world they were called in.
\<close>

lemma comparable_bounds_fail_before_store:
  assumes "datetime_le (end_time kw) (start_time kw) = Inr not_after"
    and "not_after
         \<or> (\<exists>mn mx. latitude_min kw = Some mn \<and> latitude_max kw = Some mx \<and> mx \<le> mn)
         \<or> (\<exists>mn mx. longitude_min kw = Some mn \<and> longitude_max kw = Some mx \<and> mx \<le> mn)"
  shows "\<exists>errs. errs \<noteq> []
           \<and> HistoryQueryParams_init kw = Inl (ValidationError errs)
           \<and> (\<forall>ev bi isoformat svc query (w :: 'w).
                 get_aggregated_data ev bi isoformat svc query kw w
                   = (Inl (HTTPException 422 ''Query validation failed: ''
                             (Some (ValidationError errs))), w))
           \<and> (\<forall>ev bi isoformat svc query (w :: 'w).
                 get_historical_data ev bi isoformat svc query kw w
                   = (Inl (HTTPException 422 ''Query validation failed: ''
                             (Some (ValidationError errs))), w))"
proof -
  let ?dlat = "if in_bounds (- 90) 90 (latitude_min kw) then Some (latitude_min kw) else None"
  let ?dlon = "if in_bounds (- 180) 180 (longitude_min kw) then Some (longitude_min kw) else None"
  obtain e_lat where lat: "field_outcome (validate_latitude_range ?dlat (latitude_max kw)) = Inr e_lat"
    and lat_ne: "\<forall>mn mx. ?dlat = Some (Some mn) \<and> latitude_max kw = Some mx \<and> mx \<le> mn
                   \<longrightarrow> e_lat \<noteq> []"
    using field_outcome_latitude [of ?dlat "latitude_max kw"] by blast
  obtain e_lon where lon: "field_outcome (validate_longitude_range ?dlon (longitude_max kw)) = Inr e_lon"
    and lon_ne: "\<forall>mn mx. ?dlon = Some (Some mn) \<and> longitude_max kw = Some mx \<and> mx \<le> mn
                   \<longrightarrow> e_lon \<noteq> []"
    using field_outcome_longitude [of ?dlon "longitude_max kw"] by blast
  let ?errors = "(if not_after then [''end_time must be after start_time''] else [])
                    @ (if positive (device_id kw) then []
                       else [''device_id: Input should be greater than 0''])
                    @ (if in_bounds (- 90) 90 (latitude_min kw) then []
                       else [''latitude_min: out of range''])
                    @ (if in_bounds (- 90) 90 (latitude_max kw) then e_lat
                       else [''latitude_max: out of range''])
                    @ (if in_bounds (- 180) 180 (longitude_min kw) then []
                       else [''longitude_min: out of range''])
                    @ (if in_bounds (- 180) 180 (longitude_max kw) then e_lon
                       else [''longitude_max: out of range''])"
  have ne: "?errors \<noteq> []"
    using assms(2) lat_ne lon_ne by (auto split: if_splits)
  have i: "HistoryQueryParams_init kw = Inl (ValidationError ?errors)"
    using validation_errors_comparable [OF assms(1) lat lon] ne
    by (simp add: HistoryQueryParams_init_def)
  have a: "get_aggregated_data ev bi isoformat svc query kw w
                   = (Inl (HTTPException 422 ''Query validation failed: ''
                             (Some (ValidationError ?errors))), w)"
    for ev bi isoformat svc and query :: "'w store" and w
    by (simp add: get_aggregated_data_def i translate_validation)
  have h: "get_historical_data ev bi isoformat svc query kw w
                   = (Inl (HTTPException 422 ''Query validation failed: ''
                             (Some (ValidationError ?errors))), w)"
    for ev bi isoformat svc and query :: "'w store" and w
    by (simp add: get_historical_data_def init_fails_any_aggregation [OF i]
                  translate_validation)
  show ?thesis
    apply (rule exI [of _ ?errors])
    apply (intro conjI allI)
       apply (rule ne)
      apply (rule i)
     apply (rule a)
    apply (rule h)
    done
qed

text \<open>
  C6 fails on the code. A request whose \<^verbatim>\<open>start_time\<close> carries a zone and whose
  \<^verbatim>\<open>end_time\<close>, earlier, carries none has an \<^verbatim>\<open>end_time\<close> that is not after
  \<^verbatim>\<open>start_time\<close>; the comparison in \<^verbatim>\<open>validate_time_range\<close> raises
  \<^verbatim>\<open>TypeError\<close>, which is not a validation error, and both handlers answer with
  status 500 (still without touching the store).
\<close>

theorem mixed_awareness_not_a_validation_error:
  "HistoryQueryParams_init mixed_params
     = Inl (TypeError ''cannot compare offset-naive and offset-aware datetimes'')
   \<and> \<not> is_ValueError (TypeError ''cannot compare offset-naive and offset-aware datetimes'')
   \<and> get_historical_data wire_env test_builtins test_isoformat test_store_service
         failing_store mixed_params \<lparr> ww_now = 0, ww_sent = [] \<rparr>
       = (Inl (HTTPException 500 ''Failed to retrieve historical data'' None),
          \<lparr> ww_now = 0, ww_sent = [] \<rparr>)
   \<and> get_aggregated_data wire_env test_builtins test_isoformat test_store_service
         failing_store mixed_params \<lparr> ww_now = 0, ww_sent = [] \<rparr>
       = (Inl (HTTPException 500 ''Failed to retrieve aggregated data'' None),
          \<lparr> ww_now = 0, ww_sent = [] \<rparr>)"
proof -
  have le: "datetime_le (end_time mixed_params) (start_time mixed_params)
      = Inl (TypeError ''cannot compare offset-naive and offset-aware datetimes'')"
    by (simp add: mixed_params_def datetime_le_def)
  have i: "HistoryQueryParams_init mixed_params
      = Inl (TypeError ''cannot compare offset-naive and offset-aware datetimes'')"
    by (simp add: HistoryQueryParams_init_def validation_errors_def
                  field_outcome_time_mixed [OF le])
  have a: "mixed_params\<lparr> aggregation := Some AggMEAN \<rparr> = mixed_params"
    by (simp add: mixed_params_def)
  show ?thesis
    by (simp add: i a get_historical_data_def get_aggregated_data_def translate_type_error
                  is_ValueError_def)
qed


section \<open>Query builder: the compiled text\<close>

subsection \<open>Occurrences in a joined text\<close>

lemma take_length_eq_iff: "take (length sub) s = sub \<longleftrightarrow> (\<exists>b. s = sub @ b)"
proof
  assume "take (length sub) s = sub"
  then have "s = sub @ drop (length sub) s" by (metis append_take_drop_id)
  then show "\<exists>b. s = sub @ b" ..
next
  assume "\<exists>b. s = sub @ b"
  then show "take (length sub) s = sub" by auto
qed

lemma contains_iff: "contains sub s \<longleftrightarrow> (\<exists>a b. s = a @ sub @ b)"
proof (induction s)
  case Nil
  then show ?case by auto
next
  case (Cons x xs)
  have "(\<exists>a b. x # xs = a @ sub @ b)
          \<longleftrightarrow> (\<exists>b. x # xs = sub @ b) \<or> (\<exists>a b. xs = a @ sub @ b)"
  proof
    assume "\<exists>a b. x # xs = a @ sub @ b"
    then obtain a b where e: "x # xs = a @ sub @ b" by blast
    show "(\<exists>b. x # xs = sub @ b) \<or> (\<exists>a b. xs = a @ sub @ b)"
    proof (cases a)
      case Nil
      then show ?thesis using e by auto
    next
      case (Cons y a')
      then have "xs = a' @ sub @ b" using e by simp
      then show ?thesis by blast
    qed
  next
    assume "(\<exists>b. x # xs = sub @ b) \<or> (\<exists>a b. xs = a @ sub @ b)"
    then show "\<exists>a b. x # xs = a @ sub @ b"
    proof
      assume "\<exists>b. x # xs = sub @ b"
      then obtain b where "x # xs = [] @ sub @ b" by auto
      then show ?thesis by blast
    next
      assume "\<exists>a b. xs = a @ sub @ b"
      then obtain a b where "x # xs = (x # a) @ sub @ b" by auto
      then show ?thesis by blast
    qed
  qed
  then show ?case using Cons.IH by (simp add: take_length_eq_iff del: take_Suc_Cons)
qed

lemma join_Cons_head: "join sep ((x # xs) # rest) = x # join sep (xs # rest)"
  by (cases rest) simp_all

lemma join_Cons_Cons: "join sep (p # q # rest) = p @ sep @ join sep (q # rest)"
  by simp

lemma join_member:
  assumes "part \<in> set parts"
  shows "\<exists>a b. join sep parts = a @ part @ b"
  using assms
proof (induction sep parts rule: join.induct)
  case (1 sep)
  then show ?case by simp
next
  case (2 sep p)
  then have "join sep [p] = [] @ part @ []" by simp
  then show ?case by blast
next
  case (3 sep p q rest)
  show ?case
  proof (cases "part = p")
    case True
    then have "join sep (p # q # rest) = [] @ part @ (sep @ join sep (q # rest))" by simp
    then show ?thesis by blast
  next
    case False
    then have "part \<in> set (q # rest)" using "3.prems" by simp
    then obtain a b where "join sep (q # rest) = a @ part @ b" using "3.IH" by blast
    then have "join sep (p # q # rest) = (p @ sep @ a) @ part @ b" by simp
    then show ?thesis by blast
  qed
qed

lemma first_occurrence:
  assumes "a @ c # u = xs @ c # t" and "c \<notin> set xs"
  shows "(a = xs \<and> u = t) \<or> (\<exists>a'. a = xs @ c # a' \<and> t = a' @ c # u)"
  using assms
proof (induction xs arbitrary: a)
  case Nil
  then show ?case by (cases a) auto
next
  case (Cons x xs)
  then obtain a' where a: "a = x # a'" by (cases a) auto
  then have "a' @ c # u = xs @ c # t" "c \<notin> set xs" using Cons.prems by auto
  then show ?case using Cons.IH a by auto
qed

lemma prefix_before_separator:
  assumes "p @ b = r @ nl # rest" and "nl \<notin> set p"
  shows "\<exists>b'. r = p @ b'"
proof -
  from assms(1) obtain us where
    "(p = r @ us \<and> us @ b = nl # rest) \<or> (p @ us = r \<and> b = us @ nl # rest)"
    by (auto simp: append_eq_append_conv2)
  then show ?thesis
  proof
    assume h: "p = r @ us \<and> us @ b = nl # rest"
    show ?thesis
    proof (cases us)
      case Nil
      then show ?thesis using h by simp
    next
      case (Cons u us')
      then have "nl \<in> set p" using h by auto
      then show ?thesis using assms(2) by simp
    qed
  next
    assume "p @ us = r \<and> b = us @ nl # rest"
    then show ?thesis by auto
  qed
qed

lemma prefix_of_join_head:
  assumes "p @ b = join (nl # sep') (r # rest)" and "nl \<notin> set p"
  shows "\<exists>b'. r = p @ b'"
proof (cases rest)
  case Nil
  then show ?thesis using assms(1) by auto
next
  case (Cons q rest')
  then have "p @ b = r @ nl # (sep' @ join (nl # sep') (q # rest'))" using assms(1) by simp
  then show ?thesis using assms(2) by (rule prefix_before_separator)
qed

text \<open>
  Where a clause can occur in a joined text: every line but the first starts with the
  character \<open>c\<close> and has no other, the first line and the separator have none, and the
  clause starts with \<open>c\<close> and does not reach over a separator. Then the clause occurs in
  the text iff one of the lines starts with it.
\<close>

lemma occurrence_in_join:
  assumes "c \<notin> set l0" and "c \<notin> set (nl # sep')"
    and "\<forall>l \<in> set ls. \<exists>r. l = c # r \<and> c \<notin> set r"
    and "join (nl # sep') (l0 # ls) = a @ (c # p) @ b" and "nl \<notin> set p"
  shows "\<exists>l \<in> set ls. \<exists>b'. l = (c # p) @ b'"
  using assms(1,3,4)
proof (induction ls arbitrary: l0 a)
  case Nil
  then have "c \<in> set l0" by (metis append_Cons in_set_conv_decomp join.simps(2))
  then show ?case using Nil.prems(1) by simp
next
  case (Cons l ls)
  then obtain r where l: "l = c # r" and r: "c \<notin> set r" by auto
  let ?sep = "nl # sep'"
  have "join ?sep (l0 # l # ls) = (l0 @ ?sep) @ c # join ?sep (r # ls)"
    using l by (simp add: join_Cons_head del: join.simps)
       (simp add: join_Cons_head)
  then have e: "a @ c # (p @ b) = (l0 @ ?sep) @ c # join ?sep (r # ls)"
    using Cons.prems(3) by simp
  have nc: "c \<notin> set (l0 @ ?sep)" using Cons.prems(1) assms(2) by simp
  from first_occurrence [OF e nc]
  show ?case
  proof
    assume "a = l0 @ ?sep \<and> p @ b = join ?sep (r # ls)"
    then have "\<exists>b'. r = p @ b'" using prefix_of_join_head assms(5) by blast
    then show ?thesis using l by auto
  next
    assume "\<exists>a'. a = (l0 @ ?sep) @ c # a' \<and> join ?sep (r # ls) = a' @ c # p @ b"
    then obtain a' where "join ?sep (r # ls) = a' @ (c # p) @ b" by auto
    moreover have "\<forall>l \<in> set ls. \<exists>r. l = c # r \<and> c \<notin> set r" using Cons.prems(2) by simp
    ultimately have "\<exists>l \<in> set ls. \<exists>b'. l = (c # p) @ b'"
      using Cons.IH [OF r] by blast
    then show ?thesis by auto
  qed
qed

subsection \<open>The lines of a valid request\<close>

lemma validation_errors_nil_positive:
  assumes "validation_errors kw = Inr []"
  shows "positive (device_id kw)"
proof (rule ccontr)
  assume "\<not> positive (device_id kw)"
  then have "validation_errors kw \<noteq> Inr []"
    by (simp add: validation_errors_def Let_def split: sum.splits)
  then show False using assms by simp
qed

lemma init_valid:
  assumes "HistoryQueryParams_init kw = Inr params"
  shows "params = kw \<and> positive (device_id params)"
proof (cases "validation_errors kw")
  case (Inl e)
  then show ?thesis using assms by (simp add: HistoryQueryParams_init_def)
next
  case (Inr errors)
  then have "errors = [] \<and> params = kw"
    using assms by (simp add: HistoryQueryParams_init_def split: if_splits)
  then show ?thesis using Inr validation_errors_nil_positive by simp
qed

lemma SensorType_value_nonempty: "SensorType_value st \<noteq> []"
  by (cases st) simp_all

lemma SensorType_value_bar_free: "CHR ''|'' \<notin> set (SensorType_value st)"
  by (cases st) simp_all

lemma digit_char_bar_free:
  assumes "d < 10"
  shows "digit_char d \<noteq> CHR ''|''"
proof -
  have "d \<in> {0, 1, 2, 3, 4, 5, 6, 7, 8, 9}" using assms by auto
  then show ?thesis by (auto simp: digit_char_def)
qed

lemma str_nat_bar_free: "CHR ''|'' \<notin> set (str_nat n)"
proof (induction n rule: str_nat.induct)
  case (1 n)
  show ?case
  proof (cases "n < 10")
    case True
    then show ?thesis
      using digit_char_bar_free [of n] by (subst str_nat.simps) auto
  next
    case False
    have "n mod 10 < 10" by simp
    then have "digit_char (n mod 10) \<noteq> CHR ''|''" by (rule digit_char_bar_free)
    then show ?thesis
      using False 1 by (subst str_nat.simps) auto
  qed
qed

lemma str_int_bar_free: "CHR ''|'' \<notin> set (str_int d)"
  by (simp add: str_int_def str_nat_bar_free)

lemma sensor_type_part:
  "(case v of None \<Rightarrow> [] | Some st \<Rightarrow> if SensorType_value st \<noteq> [] then [f st] else [])
     = (case v of None \<Rightarrow> [] | Some st \<Rightarrow> [f st])"
  by (cases v) (simp_all add: SensorType_value_nonempty)

lemma device_id_part:
  assumes "positive v"
  shows "(case v of None \<Rightarrow> [] | Some d \<Rightarrow> if d \<noteq> 0 then [f d] else [])
     = (case v of None \<Rightarrow> [] | Some d \<Rightarrow> [f d])"
  using assms by (cases v) (simp_all add: positive_def)

lemmas clause_defs = from_clause_def range_clause_def measurement_clause_def
  sensor_type_clause_def device_id_clause_def latitude_min_clause_def latitude_max_clause_def
  longitude_min_clause_def longitude_max_clause_def

lemma query_parts_valid:
  assumes "positive (device_id params)"
  shows "query_parts bi isoformat svc params
           = (''from(bucket: \"'' @ bucket svc @ ''\")'') # filter_lines bi isoformat params"
  unfolding query_parts_def sensor_type_part device_id_part [OF assms] clause_defs
  by simp

lemma build_base_query_valid:
  assumes "positive (device_id params)"
  shows "build_base_query bi isoformat svc params
           = join [CHR 0x0A, CHR '' '', CHR '' '']
               ((''from(bucket: \"'' @ bucket svc @ ''\")'') # filter_lines bi isoformat params)"
  unfolding build_base_query_def line_break_def query_parts_valid [OF assms] by (rule refl)

lemma bex_option_line:
  "(\<exists>l \<in> set (case x of None \<Rightarrow> [] | Some v \<Rightarrow> [f v]). P l) \<longleftrightarrow> (\<exists>v. x = Some v \<and> P (f v))"
  by (cases x) simp_all

lemma ball_option_line:
  "(\<forall>l \<in> set (case x of None \<Rightarrow> [] | Some v \<Rightarrow> [f v]). P l) \<longleftrightarrow> (\<forall>v. x = Some v \<longrightarrow> P (f v))"
  by (cases x) simp_all

lemma filter_lines_shape:
  assumes "\<forall>t. CHR ''|'' \<notin> set (isoformat t)"
    and "\<forall>v. CHR ''|'' \<notin> set (str_of bi (PyFloat v))"
  shows "\<forall>l \<in> set (filter_lines bi isoformat params). \<exists>r. l = CHR ''|'' # r \<and> CHR ''|'' \<notin> set r"
  unfolding set_append ball_Un ball_option_line
  using assms by (simp add: SensorType_value_bar_free str_int_bar_free)

lemma clause_occurrence:
  assumes "CHR ''|'' \<notin> set (bucket svc)"
    and "\<forall>t. CHR ''|'' \<notin> set (isoformat t)"
    and "\<forall>v. CHR ''|'' \<notin> set (str_of bi (PyFloat v))"
    and "positive (device_id params)"
    and "CHR 0x0A \<notin> set p"
  shows "contains (CHR ''|'' # p) (build_base_query bi isoformat svc params)
           \<longleftrightarrow> (\<exists>l \<in> set (filter_lines bi isoformat params). \<exists>b. l = (CHR ''|'' # p) @ b)"
proof
  let ?l0 = "''from(bucket: \"'' @ bucket svc @ ''\")''"
  have q: "build_base_query bi isoformat svc params
             = join (CHR 0x0A # [CHR '' '', CHR '' ''])
                 (?l0 # filter_lines bi isoformat params)"
    by (rule build_base_query_valid [OF assms(4)])
  have l0: "CHR ''|'' \<notin> set ?l0" using assms(1) by simp
  have sep: "CHR ''|'' \<notin> set (CHR 0x0A # [CHR '' '', CHR '' ''])" by simp
  {
    assume "contains (CHR ''|'' # p) (build_base_query bi isoformat svc params)"
    then obtain a b where
      "join (CHR 0x0A # [CHR '' '', CHR '' '']) (?l0 # filter_lines bi isoformat params)
         = a @ (CHR ''|'' # p) @ b"
      unfolding contains_iff q by metis
    then show "\<exists>l \<in> set (filter_lines bi isoformat params). \<exists>b. l = (CHR ''|'' # p) @ b"
      by (rule occurrence_in_join [OF l0 sep filter_lines_shape [OF assms(2,3)] _ assms(5)])
  }
  {
    assume "\<exists>l \<in> set (filter_lines bi isoformat params). \<exists>b. l = (CHR ''|'' # p) @ b"
    then obtain l b' where "l \<in> set (filter_lines bi isoformat params)"
      and e: "l = (CHR ''|'' # p) @ b'" by blast
    then have l: "l \<in> set (?l0 # filter_lines bi isoformat params)"
      by (simp only: set_simps insert_iff simp_thms)
    obtain a b where
      "join (CHR 0x0A # [CHR '' '', CHR '' '']) (?l0 # filter_lines bi isoformat params)
         = a @ l @ b"
      using join_member [OF l] by blast
    then have "build_base_query bi isoformat svc params = a @ (CHR ''|'' # p) @ (b' @ b)"
      unfolding q e by simp
    then show "contains (CHR ''|'' # p) (build_base_query bi isoformat svc params)"
      unfolding contains_iff by blast
  }
qed

lemma line_occurs:
  assumes "positive (device_id params)"
    and "l \<in> set ((''from(bucket: \"'' @ bucket svc @ ''\")'') # filter_lines bi isoformat params)"
  shows "contains l (build_base_query bi isoformat svc params)"
  using assms(2) unfolding contains_iff build_base_query_valid [OF assms(1)]
  by (rule join_member)

lemma sensor_type_occurrence:
  assumes "CHR ''|'' \<notin> set (bucket svc)"
    and "\<forall>t. CHR ''|'' \<notin> set (isoformat t)"
    and "\<forall>v. CHR ''|'' \<notin> set (str_of bi (PyFloat v))"
    and "positive (device_id params)"
  shows "contains ''|> filter(fn: (r) => r[\"sensor_type\"] == \"''
           (build_base_query bi isoformat svc params) \<longleftrightarrow> sensor_type params \<noteq> None"
proof -
  have nl: "CHR 0x0A \<notin> set ''> filter(fn: (r) => r[\"sensor_type\"] == \"''" by simp
  show ?thesis
    unfolding clause_occurrence [OF assms nl] set_append bex_Un bex_option_line
    by simp
qed

lemma device_id_occurrence:
  assumes "CHR ''|'' \<notin> set (bucket svc)"
    and "\<forall>t. CHR ''|'' \<notin> set (isoformat t)"
    and "\<forall>v. CHR ''|'' \<notin> set (str_of bi (PyFloat v))"
    and "positive (device_id params)"
  shows "contains ''|> filter(fn: (r) => r[\"device_id\"] == \"''
           (build_base_query bi isoformat svc params) \<longleftrightarrow> device_id params \<noteq> None"
proof -
  have nl: "CHR 0x0A \<notin> set ''> filter(fn: (r) => r[\"device_id\"] == \"''" by simp
  show ?thesis
    unfolding clause_occurrence [OF assms nl] set_append bex_Un bex_option_line
    by simp
qed

lemma latitude_min_occurrence:
  assumes "CHR ''|'' \<notin> set (bucket svc)"
    and "\<forall>t. CHR ''|'' \<notin> set (isoformat t)"
    and "\<forall>v. CHR ''|'' \<notin> set (str_of bi (PyFloat v))"
    and "positive (device_id params)"
  shows "contains ''|> filter(fn: (r) => r[\"latitude\"] >= ''
           (build_base_query bi isoformat svc params) \<longleftrightarrow> latitude_min params \<noteq> None"
proof -
  have nl: "CHR 0x0A \<notin> set ''> filter(fn: (r) => r[\"latitude\"] >= ''" by simp
  show ?thesis
    unfolding clause_occurrence [OF assms nl] set_append bex_Un bex_option_line
    by simp
qed

lemma latitude_max_occurrence:
  assumes "CHR ''|'' \<notin> set (bucket svc)"
    and "\<forall>t. CHR ''|'' \<notin> set (isoformat t)"
    and "\<forall>v. CHR ''|'' \<notin> set (str_of bi (PyFloat v))"
    and "positive (device_id params)"
  shows "contains ''|> filter(fn: (r) => r[\"latitude\"] <= ''
           (build_base_query bi isoformat svc params) \<longleftrightarrow> latitude_max params \<noteq> None"
proof -
  have nl: "CHR 0x0A \<notin> set ''> filter(fn: (r) => r[\"latitude\"] <= ''" by simp
  show ?thesis
    unfolding clause_occurrence [OF assms nl] set_append bex_Un bex_option_line
    by simp
qed

lemma longitude_min_occurrence:
  assumes "CHR ''|'' \<notin> set (bucket svc)"
    and "\<forall>t. CHR ''|'' \<notin> set (isoformat t)"
    and "\<forall>v. CHR ''|'' \<notin> set (str_of bi (PyFloat v))"
    and "positive (device_id params)"
  shows "contains ''|> filter(fn: (r) => r[\"longitude\"] >= ''
           (build_base_query bi isoformat svc params) \<longleftrightarrow> longitude_min params \<noteq> None"
proof -
  have nl: "CHR 0x0A \<notin> set ''> filter(fn: (r) => r[\"longitude\"] >= ''" by simp
  show ?thesis
    unfolding clause_occurrence [OF assms nl] set_append bex_Un bex_option_line
    by simp
qed

lemma longitude_max_occurrence:
  assumes "CHR ''|'' \<notin> set (bucket svc)"
    and "\<forall>t. CHR ''|'' \<notin> set (isoformat t)"
    and "\<forall>v. CHR ''|'' \<notin> set (str_of bi (PyFloat v))"
    and "positive (device_id params)"
  shows "contains ''|> filter(fn: (r) => r[\"longitude\"] <= ''
           (build_base_query bi isoformat svc params) \<longleftrightarrow> longitude_max params \<noteq> None"
proof -
  have nl: "CHR 0x0A \<notin> set ''> filter(fn: (r) => r[\"longitude\"] <= ''" by simp
  show ?thesis
    unfolding clause_occurrence [OF assms nl] set_append bex_Un bex_option_line
    by simp
qed

text \<open>
  C9. For every valid \<^verbatim>\<open>HistoryQueryParams\<close> (one the constructor returned) the compiled
  base query is the text written out below: the \<^verbatim>\<open>from\<close> line, the time range and the
  measurement filter, then one filter line for each optional parameter that was supplied,
  joined by a line break and two blanks. So the time range clause and the measurement
  clause occur in the text always, and the clause of each supplied parameter occurs in it
  with the parameter's value. Conversely, when the texts put into the query (the bucket
  name, the ISO form of a datetime, the decimal form of a float) contain no \<^verbatim>\<open>|\<close>, the
  text contains the beginning of a sensor type clause, of a device id clause or of one of
  the four bound clauses iff that parameter was supplied.
\<close>

theorem base_query_clauses:
  assumes "HistoryQueryParams_init kw = Inr params"
  shows "(let q = build_base_query bi isoformat svc params in
      q = join [CHR 0x0A, CHR '' '', CHR '' '']
            ([''from(bucket: \"'' @ bucket svc @ ''\")'',
              ''|> range(start: '' @ isoformat (start_time params) @ ''Z, stop: ''
                 @ isoformat (end_time params) @ ''Z)'',
              ''|> filter(fn: (r) => r[\"_measurement\"] == \"sensor_data\")'']
             @ (case sensor_type params of
                  None \<Rightarrow> []
                | Some st \<Rightarrow> [''|> filter(fn: (r) => r[\"sensor_type\"] == \"'' @ SensorType_value st @ ''\")''])
             @ (case device_id params of
                  None \<Rightarrow> []
                | Some d \<Rightarrow> [''|> filter(fn: (r) => r[\"device_id\"] == \"'' @ str_int d @ ''\")''])
             @ (case latitude_min params of
                  None \<Rightarrow> []
                | Some v \<Rightarrow> [''|> filter(fn: (r) => r[\"latitude\"] >= '' @ str_of bi (PyFloat v) @ '')''])
             @ (case latitude_max params of
                  None \<Rightarrow> []
                | Some v \<Rightarrow> [''|> filter(fn: (r) => r[\"latitude\"] <= '' @ str_of bi (PyFloat v) @ '')''])
             @ (case longitude_min params of
                  None \<Rightarrow> []
                | Some v \<Rightarrow> [''|> filter(fn: (r) => r[\"longitude\"] >= '' @ str_of bi (PyFloat v) @ '')''])
             @ (case longitude_max params of
                  None \<Rightarrow> []
                | Some v \<Rightarrow> [''|> filter(fn: (r) => r[\"longitude\"] <= '' @ str_of bi (PyFloat v) @ '')'']))
    \<and> contains (''from(bucket: \"'' @ bucket svc @ ''\")'') q
    \<and> contains (''|> range(start: '' @ isoformat (start_time params) @ ''Z, stop: ''
                 @ isoformat (end_time params) @ ''Z)'') q
    \<and> contains ''|> filter(fn: (r) => r[\"_measurement\"] == \"sensor_data\")'' q
    \<and> (\<forall>st. sensor_type params = Some st
           \<longrightarrow> contains (''|> filter(fn: (r) => r[\"sensor_type\"] == \"'' @ SensorType_value st @ ''\")'') q)
    \<and> (\<forall>d. device_id params = Some d
           \<longrightarrow> contains (''|> filter(fn: (r) => r[\"device_id\"] == \"'' @ str_int d @ ''\")'') q)
    \<and> (\<forall>v. latitude_min params = Some v
           \<longrightarrow> contains (''|> filter(fn: (r) => r[\"latitude\"] >= '' @ str_of bi (PyFloat v) @ '')'') q)
    \<and> (\<forall>v. latitude_max params = Some v
           \<longrightarrow> contains (''|> filter(fn: (r) => r[\"latitude\"] <= '' @ str_of bi (PyFloat v) @ '')'') q)
    \<and> (\<forall>v. longitude_min params = Some v
           \<longrightarrow> contains (''|> filter(fn: (r) => r[\"longitude\"] >= '' @ str_of bi (PyFloat v) @ '')'') q)
    \<and> (\<forall>v. longitude_max params = Some v
           \<longrightarrow> contains (''|> filter(fn: (r) => r[\"longitude\"] <= '' @ str_of bi (PyFloat v) @ '')'') q)
    \<and> (CHR ''|'' \<notin> set (bucket svc)
         \<and> (\<forall>t. CHR ''|'' \<notin> set (isoformat t))
         \<and> (\<forall>v. CHR ''|'' \<notin> set (str_of bi (PyFloat v)))
       \<longrightarrow> (contains ''|> filter(fn: (r) => r[\"sensor_type\"] == \"'' q
              \<longleftrightarrow> sensor_type params \<noteq> None)
         \<and> (contains ''|> filter(fn: (r) => r[\"device_id\"] == \"'' q
              \<longleftrightarrow> device_id params \<noteq> None)
         \<and> (contains ''|> filter(fn: (r) => r[\"latitude\"] >= '' q
              \<longleftrightarrow> latitude_min params \<noteq> None)
         \<and> (contains ''|> filter(fn: (r) => r[\"latitude\"] <= '' q
              \<longleftrightarrow> latitude_max params \<noteq> None)
         \<and> (contains ''|> filter(fn: (r) => r[\"longitude\"] >= '' q
              \<longleftrightarrow> longitude_min params \<noteq> None)
         \<and> (contains ''|> filter(fn: (r) => r[\"longitude\"] <= '' q
              \<longleftrightarrow> longitude_max params \<noteq> None)))"
proof -
  have pos: "positive (device_id params)" by (rule conjunct2 [OF init_valid [OF assms]])
  let ?q = "build_base_query bi isoformat svc params"
  have qt: "?q = join [CHR 0x0A, CHR '' '', CHR '' '']
                     ((''from(bucket: \"'' @ bucket svc @ ''\")'') # filter_lines bi isoformat params)"
    by (rule build_base_query_valid [OF pos])
  have c0: "contains (''from(bucket: \"'' @ bucket svc @ ''\")'') ?q"
    by (rule line_occurs [OF pos]) simp
  have c1: "contains (''|> range(start: '' @ isoformat (start_time params) @ ''Z, stop: ''
                 @ isoformat (end_time params) @ ''Z)'') ?q"
    by (rule line_occurs [OF pos]) simp
  have c2: "contains ''|> filter(fn: (r) => r[\"_measurement\"] == \"sensor_data\")'' ?q"
    by (rule line_occurs [OF pos]) simp
  have s0: "contains (''|> filter(fn: (r) => r[\"sensor_type\"] == \"'' @ SensorType_value st @ ''\")'') ?q"
    if "sensor_type params = Some st" for st
    by (rule line_occurs [OF pos]) (simp add: that)
  have s1: "contains (''|> filter(fn: (r) => r[\"device_id\"] == \"'' @ str_int d @ ''\")'') ?q"
    if "device_id params = Some d" for d
    by (rule line_occurs [OF pos]) (simp add: that)
  have s2: "contains (''|> filter(fn: (r) => r[\"latitude\"] >= '' @ str_of bi (PyFloat v) @ '')'') ?q"
    if "latitude_min params = Some v" for v
    by (rule line_occurs [OF pos]) (simp add: that)
  have s3: "contains (''|> filter(fn: (r) => r[\"latitude\"] <= '' @ str_of bi (PyFloat v) @ '')'') ?q"
    if "latitude_max params = Some v" for v
    by (rule line_occurs [OF pos]) (simp add: that)
  have s4: "contains (''|> filter(fn: (r) => r[\"longitude\"] >= '' @ str_of bi (PyFloat v) @ '')'') ?q"
    if "longitude_min params = Some v" for v
    by (rule line_occurs [OF pos]) (simp add: that)
  have s5: "contains (''|> filter(fn: (r) => r[\"longitude\"] <= '' @ str_of bi (PyFloat v) @ '')'') ?q"
    if "longitude_max params = Some v" for v
    by (rule line_occurs [OF pos]) (simp add: that)
  have conv: "(contains ''|> filter(fn: (r) => r[\"sensor_type\"] == \"'' ?q
              \<longleftrightarrow> sensor_type params \<noteq> None)
         \<and> (contains ''|> filter(fn: (r) => r[\"device_id\"] == \"'' ?q
              \<longleftrightarrow> device_id params \<noteq> None)
         \<and> (contains ''|> filter(fn: (r) => r[\"latitude\"] >= '' ?q
              \<longleftrightarrow> latitude_min params \<noteq> None)
         \<and> (contains ''|> filter(fn: (r) => r[\"latitude\"] <= '' ?q
              \<longleftrightarrow> latitude_max params \<noteq> None)
         \<and> (contains ''|> filter(fn: (r) => r[\"longitude\"] >= '' ?q
              \<longleftrightarrow> longitude_min params \<noteq> None)
         \<and> (contains ''|> filter(fn: (r) => r[\"longitude\"] <= '' ?q
              \<longleftrightarrow> longitude_max params \<noteq> None)"
    if "CHR ''|'' \<notin> set (bucket svc)" and "\<forall>t. CHR ''|'' \<notin> set (isoformat t)"
      and "\<forall>v. CHR ''|'' \<notin> set (str_of bi (PyFloat v))"
    by (intro conjI sensor_type_occurrence device_id_occurrence latitude_min_occurrence
          latitude_max_occurrence longitude_min_occurrence longitude_max_occurrence that pos)
  show ?thesis
    unfolding Let_def
    apply (intro conjI allI impI)
                   apply (simp only: qt append_Cons append_Nil)
                  apply (rule c0)
                 apply (rule c1)
                apply (rule c2)
               apply (erule s0)
              apply (erule s1)
             apply (erule s2)
            apply (erule s3)
           apply (erule s4)
          apply (erule s5)
         apply (elim conjE, drule (2) conv, blast)+
    done
qed

lemma valid_params_init: "HistoryQueryParams_init valid_params = Inr valid_params"
  by (simp add: HistoryQueryParams_init_def validation_errors_def valid_params_def Let_def
        field_outcome_def validate_time_range_def datetime_le_def in_bounds_def positive_def
        validate_latitude_range_def validate_longitude_range_def)

lemma plain_params_init: "HistoryQueryParams_init plain_params = Inr plain_params"
  by (simp add: HistoryQueryParams_init_def validation_errors_def plain_params_def Let_def
        field_outcome_def validate_time_range_def datetime_le_def in_bounds_def positive_def
        validate_latitude_range_def validate_longitude_range_def)

lemma str_int_12345: "str_int 12345 = ''12345''"
  by (simp add: str_int_def str_nat.simps digit_char_def)

lemma test_texts_bar_free:
  "CHR ''|'' \<notin> set (bucket test_store_service)"
  "\<forall>t. CHR ''|'' \<notin> set (test_isoformat t)"
  "\<forall>v. CHR ''|'' \<notin> set (str_of test_builtins (PyFloat v))"
  by (simp_all add: test_store_service_def test_isoformat_def test_builtins_def)

theorem base_query_clauses_witness:
  "HistoryQueryParams_init valid_params = Inr valid_params
   \<and> HistoryQueryParams_init plain_params = Inr plain_params
   \<and> CHR ''|'' \<notin> set (bucket test_store_service)
   \<and> (\<forall>t. CHR ''|'' \<notin> set (test_isoformat t))
   \<and> (\<forall>v. CHR ''|'' \<notin> set (str_of test_builtins (PyFloat v)))
   \<and> build_base_query test_builtins test_isoformat test_store_service valid_params
       = ''from(bucket: \"iot-sensors\")''
         @ CHR 0x0A # ''  |> range(start: 2024-01-15T12:00:00Z, stop: 2024-01-15T13:00:00Z)''
         @ CHR 0x0A # ''  |> filter(fn: (r) => r[\"_measurement\"] == \"sensor_data\")''
         @ CHR 0x0A # ''  |> filter(fn: (r) => r[\"sensor_type\"] == \"temperature\")''
         @ CHR 0x0A # ''  |> filter(fn: (r) => r[\"device_id\"] == \"12345\")''
         @ CHR 0x0A # ''  |> filter(fn: (r) => r[\"latitude\"] >= 10.0)''
         @ CHR 0x0A # ''  |> filter(fn: (r) => r[\"latitude\"] <= 20.0)''
         @ CHR 0x0A # ''  |> filter(fn: (r) => r[\"longitude\"] >= 30.5)''
         @ CHR 0x0A # ''  |> filter(fn: (r) => r[\"longitude\"] <= 45.0)''
   \<and> contains ''|> range(start: 2024-01-15T12:00:00Z, stop: 2024-01-15T13:00:00Z)''
         (build_base_query test_builtins test_isoformat test_store_service valid_params)
   \<and> contains ''|> filter(fn: (r) => r[\"device_id\"] == \"12345\")''
         (build_base_query test_builtins test_isoformat test_store_service valid_params)
   \<and> contains ''|> filter(fn: (r) => r[\"longitude\"] <= 45.0)''
         (build_base_query test_builtins test_isoformat test_store_service valid_params)
   \<and> build_base_query test_builtins test_isoformat test_store_service plain_params
       = ''from(bucket: \"iot-sensors\")''
         @ CHR 0x0A # ''  |> range(start: 2024-01-15T12:00:00Z, stop: 2024-01-15T13:00:00Z)''
         @ CHR 0x0A # ''  |> filter(fn: (r) => r[\"_measurement\"] == \"sensor_data\")''
   \<and> \<not> contains ''|> filter(fn: (r) => r[\"sensor_type\"] == \"''
         (build_base_query test_builtins test_isoformat test_store_service plain_params)
   \<and> \<not> contains ''|> filter(fn: (r) => r[\"device_id\"] == \"''
         (build_base_query test_builtins test_isoformat test_store_service plain_params)
   \<and> \<not> contains ''|> filter(fn: (r) => r[\"latitude\"] >= ''
         (build_base_query test_builtins test_isoformat test_store_service plain_params)
   \<and> \<not> contains ''|> filter(fn: (r) => r[\"latitude\"] <= ''
         (build_base_query test_builtins test_isoformat test_store_service plain_params)
   \<and> \<not> contains ''|> filter(fn: (r) => r[\"longitude\"] >= ''
         (build_base_query test_builtins test_isoformat test_store_service plain_params)
   \<and> \<not> contains ''|> filter(fn: (r) => r[\"longitude\"] <= ''
         (build_base_query test_builtins test_isoformat test_store_service plain_params)"
proof -
  note v = base_query_clauses [OF valid_params_init,
      of test_builtins test_isoformat test_store_service, unfolded Let_def]
  note p = base_query_clauses [OF plain_params_init,
      of test_builtins test_isoformat test_store_service, unfolded Let_def]
  have fields:
    "start_time valid_params = Naive 1705320000000000"
    "end_time valid_params = Naive 1705323600000000"
    "sensor_type valid_params = Some TEMPERATURE"
    "device_id valid_params = Some 12345"
    "latitude_min valid_params = Some 10" "latitude_max valid_params = Some 20"
    "longitude_min valid_params = Some (61 / 2)" "longitude_max valid_params = Some 45"
    "start_time plain_params = Naive 1705320000000000"
    "end_time plain_params = Naive 1705323600000000"
    "sensor_type plain_params = None" "device_id plain_params = None"
    "latitude_min plain_params = None" "latitude_max plain_params = None"
    "longitude_min plain_params = None" "longitude_max plain_params = None"
    by (simp_all add: valid_params_def plain_params_def)
  have texts:
    "bucket test_store_service = ''iot-sensors''"
    "test_isoformat (Naive 1705320000000000) = ''2024-01-15T12:00:00''"
    "test_isoformat (Naive 1705323600000000) = ''2024-01-15T13:00:00''"
    "str_of test_builtins (PyFloat 10) = ''10.0''"
    "str_of test_builtins (PyFloat 20) = ''20.0''"
    "str_of test_builtins (PyFloat (61 / 2)) = ''30.5''"
    "str_of test_builtins (PyFloat 45) = ''45.0''"
    by (simp_all add: test_store_service_def test_isoformat_def test_builtins_def)
  have v1: "build_base_query test_builtins test_isoformat test_store_service valid_params
       = ''from(bucket: \"iot-sensors\")''
         @ CHR 0x0A # ''  |> range(start: 2024-01-15T12:00:00Z, stop: 2024-01-15T13:00:00Z)''
         @ CHR 0x0A # ''  |> filter(fn: (r) => r[\"_measurement\"] == \"sensor_data\")''
         @ CHR 0x0A # ''  |> filter(fn: (r) => r[\"sensor_type\"] == \"temperature\")''
         @ CHR 0x0A # ''  |> filter(fn: (r) => r[\"device_id\"] == \"12345\")''
         @ CHR 0x0A # ''  |> filter(fn: (r) => r[\"latitude\"] >= 10.0)''
         @ CHR 0x0A # ''  |> filter(fn: (r) => r[\"latitude\"] <= 20.0)''
         @ CHR 0x0A # ''  |> filter(fn: (r) => r[\"longitude\"] >= 30.5)''
         @ CHR 0x0A # ''  |> filter(fn: (r) => r[\"longitude\"] <= 45.0)''"
    unfolding v [THEN conjunct1] by (simp add: fields texts str_int_12345)
  have v2: "contains ''|> range(start: 2024-01-15T12:00:00Z, stop: 2024-01-15T13:00:00Z)''
         (build_base_query test_builtins test_isoformat test_store_service valid_params)"
    using v [THEN conjunct2, THEN conjunct2, THEN conjunct1] by (simp add: fields texts)
  have v3: "contains ''|> filter(fn: (r) => r[\"device_id\"] == \"12345\")''
         (build_base_query test_builtins test_isoformat test_store_service valid_params)"
    using v [THEN conjunct2, THEN conjunct2, THEN conjunct2, THEN conjunct2, THEN conjunct2,
             THEN conjunct1, rule_format, OF fields(4)]
    by (simp add: str_int_12345)
  have v4: "contains ''|> filter(fn: (r) => r[\"longitude\"] <= 45.0)''
         (build_base_query test_builtins test_isoformat test_store_service valid_params)"
    using v [THEN conjunct2, THEN conjunct2, THEN conjunct2, THEN conjunct2, THEN conjunct2,
             THEN conjunct2, THEN conjunct2, THEN conjunct2, THEN conjunct2,
             THEN conjunct1, rule_format, OF fields(8)]
    by (simp add: texts)
  have p1: "build_base_query test_builtins test_isoformat test_store_service plain_params
       = ''from(bucket: \"iot-sensors\")''
         @ CHR 0x0A # ''  |> range(start: 2024-01-15T12:00:00Z, stop: 2024-01-15T13:00:00Z)''
         @ CHR 0x0A # ''  |> filter(fn: (r) => r[\"_measurement\"] == \"sensor_data\")''"
    unfolding p [THEN conjunct1] by (simp add: fields texts)
  note p2 = p [THEN conjunct2, THEN conjunct2, THEN conjunct2, THEN conjunct2, THEN conjunct2,
             THEN conjunct2, THEN conjunct2, THEN conjunct2, THEN conjunct2,
             THEN conjunct2, rule_format, OF conjI [OF test_texts_bar_free(1)
               conjI [OF test_texts_bar_free(2) test_texts_bar_free(3)]], unfolded fields]
  show ?thesis
    apply (intro conjI)
                   apply (rule valid_params_init)
                  apply (rule plain_params_init)
                 apply (rule test_texts_bar_free)
                apply (rule test_texts_bar_free)
               apply (rule test_texts_bar_free)
              apply (rule v1)
             apply (rule v2)
            apply (rule v3)
           apply (rule v4)
          apply (rule p1)
         apply (simp only: p2 simp_thms)+
    done
qed

end
